theory Spec2Isabelle
  imports Complex_Main "HOL-Library.AList"
begin

section \<open>Python values\<close>

text \<open>
  The consumer (\<^verbatim>\<open>src/consumer/consumer.py\<close>) works on what \<^verbatim>\<open>json.loads\<close> and
  \<^verbatim>\<open>Response.json()\<close> return: \<^verbatim>\<open>None\<close>, booleans, integers, floats, strings,
  lists and dictionaries with string keys. A Python string is the list of its Unicode
  code points, so that \<^verbatim>\<open>len\<close>, indexing and slicing count what Python counts;
  \<open>ascii\<close> makes one from a string literal of this text. A dictionary is an
  association list read with \<open>map_of\<close>. A float is its exact value or one of the three
  special values; both zeros of IEEE arithmetic are \<open>PyFloat 0\<close>.
\<close>

type_synonym pystr = "nat list"

definition ascii :: "string \<Rightarrow> pystr" where
  "ascii s = map of_char s"

datatype pyfloat = PyFloat real | PyInf | PyNegInf | PyNaN

datatype json =
    JNull
  | JBool bool
  | JInt int
  | JFloat pyfloat
  | JStr pystr
  | JArr "json list"
  | JObj "(pystr \<times> json) list"

text \<open>
  The exception classes that can leave a function of the consumer. \<open>DBError\<close> stands
  for \<^verbatim>\<open>psycopg2.Error\<close> and its subclasses, \<open>KafkaException\<close> for what
  \<^verbatim>\<open>consumer.commit\<close> raises. A \<^verbatim>\<open>requests.RequestException\<close> is not among them: it is
  caught where it is raised, in \<^verbatim>\<open>geocode\<close> and in \<^verbatim>\<open>fetch_profile\<close>.
\<close>

datatype exn =
    AttributeError
  | TypeError
  | ValueError
  | KeyError
  | IndexError
  | OverflowError
  | UnicodeDecodeError
  | UnicodeEncodeError
  | JSONDecodeError
  | DBError
  | KafkaException

text \<open>
  Library functions whose result is not computed here are parameters: \<open>str_of\<close> is
  \<^verbatim>\<open>str()\<close> on floats, lists and dictionaries, \<open>strptime\<close> is
  \<^verbatim>\<open>datetime.strptime(s, "%Y-%m-%dT%H:%M:%SZ").replace(tzinfo=timezone.utc)\<close> on a string
  (\<open>None\<close> when it raises \<^verbatim>\<open>ValueError\<close>; the time is in seconds), \<open>float_of_str\<close> is
  \<^verbatim>\<open>float()\<close> on a string (\<open>None\<close> when it raises \<^verbatim>\<open>ValueError\<close>), and \<open>str_lower\<close>,
  \<open>str_upper\<close> and \<open>str_isspace\<close> are \<^verbatim>\<open>str.lower\<close>, \<^verbatim>\<open>str.upper\<close> and, on one code
  point, \<^verbatim>\<open>str.isspace\<close>, which follow the Unicode character database.
\<close>

record pylib =
  str_of :: "json \<Rightarrow> pystr"
  strptime :: "pystr \<Rightarrow> int option"
  float_of_str :: "pystr \<Rightarrow> pyfloat option"
  str_lower :: "pystr \<Rightarrow> pystr"
  str_upper :: "pystr \<Rightarrow> pystr"
  str_isspace :: "nat \<Rightarrow> bool"

definition float_truthy :: "pyfloat \<Rightarrow> bool" where
  "float_truthy f = (case f of PyFloat r \<Rightarrow> r \<noteq> 0 | _ \<Rightarrow> True)"

text \<open>Truth value testing (\<^verbatim>\<open>if x\<close>, \<^verbatim>\<open>x or y\<close>).\<close>

definition py_truthy :: "json \<Rightarrow> bool" where
  "py_truthy v =
     (case v of
        JNull \<Rightarrow> False
      | JBool b \<Rightarrow> b
      | JInt i \<Rightarrow> i \<noteq> 0
      | JFloat f \<Rightarrow> float_truthy f
      | JStr s \<Rightarrow> s \<noteq> []
      | JArr xs \<Rightarrow> xs \<noteq> []
      | JObj kvs \<Rightarrow> kvs \<noteq> [])"

text \<open>\<^verbatim>\<open>x or y\<close>\<close>

definition py_or :: "json \<Rightarrow> json \<Rightarrow> json" where
  "py_or x y = (if py_truthy x then x else y)"

text \<open>\<^verbatim>\<open>d.get(k, default)\<close> on a dictionary.\<close>

definition dict_get :: "(pystr \<times> json) list \<Rightarrow> pystr \<Rightarrow> json \<Rightarrow> json" where
  "dict_get d k dflt = (case map_of d k of Some v \<Rightarrow> v | None \<Rightarrow> dflt)"

text \<open>\<^verbatim>\<open>x.get(k, default)\<close> on any value: only a dictionary has the method.\<close>

definition py_get :: "json \<Rightarrow> pystr \<Rightarrow> json \<Rightarrow> exn + json" where
  "py_get x k dflt = (case x of JObj d \<Rightarrow> Inr (dict_get d k dflt) | _ \<Rightarrow> Inl AttributeError)"

text \<open>\<^verbatim>\<open>len(x)\<close>\<close>

definition py_len :: "json \<Rightarrow> exn + nat" where
  "py_len x =
     (case x of
        JArr xs \<Rightarrow> Inr (length xs)
      | JStr s \<Rightarrow> Inr (length s)
      | JObj kvs \<Rightarrow> Inr (length kvs)
      | _ \<Rightarrow> Inl TypeError)"

text \<open>Decimal digits of a natural number, most significant first.\<close>

fun digits :: "nat \<Rightarrow> pystr" where
  "digits n =
     (if n < 10 then [ascii ''0123456789'' ! n]
      else digits (n div 10) @ [ascii ''0123456789'' ! (n mod 10)])"

declare digits.simps [simp del]

text \<open>\<^verbatim>\<open>str(x)\<close>, which is what an f-string field \<^verbatim>\<open>{x}\<close> inserts.\<close>

definition py_str :: "pylib \<Rightarrow> json \<Rightarrow> pystr" where
  "py_str L v =
     (case v of
        JStr s \<Rightarrow> s
      | JNull \<Rightarrow> ascii ''None''
      | JBool b \<Rightarrow> (if b then ascii ''True'' else ascii ''False'')
      | JInt i \<Rightarrow> (if i < 0 then ascii ''-'' @ digits (nat (- i)) else digits (nat i))
      | _ \<Rightarrow> str_of L v)"

text \<open>
  \<^verbatim>\<open>float(x)\<close>. An integer converts unless it rounds to \<open>2 ^ 1024\<close> or more; the
  rounding of an integer beyond \<open>2 ^ 53\<close> is not modelled (the exact value is kept).
\<close>

definition py_float :: "pylib \<Rightarrow> json \<Rightarrow> exn + pyfloat" where
  "py_float L v =
     (case v of
        JStr s \<Rightarrow> (case float_of_str L s of None \<Rightarrow> Inl ValueError | Some f \<Rightarrow> Inr f)
      | JInt i \<Rightarrow> (if \<bar>i\<bar> < 2 ^ 1024 - 2 ^ 970 then Inr (PyFloat (of_int i)) else Inl OverflowError)
      | JFloat f \<Rightarrow> Inr f
      | JBool b \<Rightarrow> Inr (PyFloat (if b then 1 else 0))
      | _ \<Rightarrow> Inl TypeError)"

text \<open>\<^verbatim>\<open>float(x) or None\<close>\<close>

definition float_or_none :: "pylib \<Rightarrow> json \<Rightarrow> exn + json" where
  "float_or_none L v =
     (case py_float L v of
        Inl e \<Rightarrow> Inl e
      | Inr f \<Rightarrow> Inr (if float_truthy f then JFloat f else JNull))"

subsection \<open>String methods\<close>

text \<open>\<^verbatim>\<open>s.strip(chars)\<close>: drop the code points of \<open>cs\<close> from both ends.\<close>

definition strip_chars :: "pystr \<Rightarrow> pystr \<Rightarrow> pystr" where
  "strip_chars cs s = rev (dropWhile (\<lambda>c. c \<in> set cs) (rev (dropWhile (\<lambda>c. c \<in> set cs) s)))"

text \<open>\<^verbatim>\<open>s.strip()\<close>: drop white space from both ends.\<close>

definition py_strip :: "pylib \<Rightarrow> pystr \<Rightarrow> pystr" where
  "py_strip L s = rev (dropWhile (str_isspace L) (rev (dropWhile (str_isspace L) s)))"

section \<open>Detail extractor\<close>

text \<open>
  \<^verbatim>\<open>extract_detail(event)\<close>. The result is a Python value: the branches for pull
  request, issues and watch events return the payload's field as it is.
\<close>

definition extract_detail :: "pylib \<Rightarrow> json \<Rightarrow> exn + json" where
  "extract_detail L event =
     (case py_get event (ascii ''type'') (JStr (ascii '''')) of
        Inl e \<Rightarrow> Inl e
      | Inr etype \<Rightarrow>
     (case py_get event (ascii ''payload'') (JObj []) of
        Inl e \<Rightarrow> Inl e
      | Inr payload \<Rightarrow>
          if etype = JStr (ascii ''PushEvent'') then
            (case py_get payload (ascii ''commits'') (JArr []) of
               Inl e \<Rightarrow> Inl e
             | Inr commits \<Rightarrow>
            (case py_len commits of
               Inl e \<Rightarrow> Inl e
             | Inr n \<Rightarrow> Inr (JStr (py_str L (JInt (int n)) @ (ascii '' commit(s)'')))))
          else if etype \<in> {JStr (ascii ''PullRequestEvent''), JStr (ascii ''IssuesEvent'')} then
            py_get payload (ascii ''action'') (JStr (ascii ''''))
          else if etype = JStr (ascii ''CreateEvent'') then
            (case py_get payload (ascii ''ref_type'') (JStr (ascii '''')) of
               Inl e \<Rightarrow> Inl e
             | Inr ref_type \<Rightarrow>
            (case py_get payload (ascii ''ref'') (JStr (ascii '''')) of
               Inl e \<Rightarrow> Inl e
             | Inr ref \<Rightarrow>
                 Inr (JStr (py_str L ref_type @ ascii [CHR '' '', CHR 0x27] @ py_str L ref @
                            ascii [CHR 0x27]))))
          else if etype = JStr (ascii ''WatchEvent'') then
            py_get payload (ascii ''action'') (JStr (ascii ''starred''))
          else if etype = JStr (ascii ''ReleaseEvent'') then
            (case py_get payload (ascii ''release'') (JObj []) of
               Inl e \<Rightarrow> Inl e
             | Inr release \<Rightarrow>
            (case py_get release (ascii ''tag_name'') (JStr (ascii '''')) of
               Inl e \<Rightarrow> Inl e
             | Inr tag_name \<Rightarrow> Inr (JStr ((ascii ''tag '') @ py_str L tag_name))))
          else Inr (JStr (ascii ''''))))"


section \<open>Enrichment helpers\<close>

subsection \<open>The network and the state of the process\<close>

text \<open>
  \<^verbatim>\<open>requests.get\<close> is the environment's. A request is the user looked up at
  \<^verbatim>\<open>GITHUB_API_BASE\<close> or the query sent to \<^verbatim>\<open>NOMINATIM_URL\<close>; the answer is a transport
  failure (any \<^verbatim>\<open>requests.RequestException\<close>) or a status code with the body as
  \<^verbatim>\<open>r.json()\<close> reads it (\<open>None\<close> when the body is not JSON, where \<^verbatim>\<open>r.json()\<close> raises
  \<^verbatim>\<open>requests.exceptions.JSONDecodeError\<close>, a \<^verbatim>\<open>RequestException\<close>). The network may
  answer the same request differently each time: it is a function of the number of
  calls made before.
\<close>

datatype request = GithubUser pystr | Nominatim pystr

datatype response = TransportFailure | Response int "json option"

type_synonym net = "nat \<Rightarrow> request \<Rightarrow> response"

type_synonym dict = "(pystr \<times> json) list"

text \<open>What \<^verbatim>\<open>main\<close> did, and for the message at which offset.\<close>

datatype action =
    DbCommitted nat
  | OffsetCommitted nat
  | SkippedMalformed nat
  | DbFailed nat
  | RolledBack nat
  | Reconnected nat

text \<open>
  A row of the \<^verbatim>\<open>events\<close> table: the parameters of \<^verbatim>\<open>INSERT_SQL\<close>, in its order.
\<close>

record row =
  time :: int
  event_id :: json
  event_type :: json
  actor :: json
  repo :: json
  detail :: json
  location :: json
  country :: json
  country_code :: json
  lat :: json
  lng :: json
  company :: json
  public_repos :: json
  payload :: json

text \<open>
  Everything the process mutates: the two module-level caches, the network calls issued
  and the \<^verbatim>\<open>time.sleep(1.1)\<close> pauses taken so far; the table as committed and the rows
  of the open transaction; the consumer's position (messages delivered by \<^verbatim>\<open>poll\<close>) and
  its committed offset; the two counters of \<^verbatim>\<open>main\<close>; and the trace of what \<^verbatim>\<open>main\<close>
  did.
\<close>

record state =
  user_cache :: "json \<rightharpoonup> dict"
  geocode_cache :: "pystr \<rightharpoonup> dict"
  net_calls :: "request list"
  pauses :: nat
  db_committed :: "row list"
  db_pending :: "row list"
  position :: nat
  committed_offset :: nat
  processed :: nat
  errors :: nat
  trace :: "action list"

subsection \<open>geocode\<close>

text \<open>\<^verbatim>\<open>x[0]\<close>\<close>

definition py_first :: "json \<Rightarrow> exn + json" where
  "py_first x =
     (case x of
        JArr xs \<Rightarrow> (case xs of [] \<Rightarrow> Inl IndexError | h # _ \<Rightarrow> Inr h)
      | JStr s \<Rightarrow> (case s of [] \<Rightarrow> Inl IndexError | c # _ \<Rightarrow> Inr (JStr [c]))
      | JObj _ \<Rightarrow> Inl KeyError
      | _ \<Rightarrow> Inl TypeError)"

text \<open>\<^verbatim>\<open>(x or "").upper()[:2] or None\<close>\<close>

definition country_code_of :: "pylib \<Rightarrow> json \<Rightarrow> exn + json" where
  "country_code_of L x =
     (case py_or x (JStr (ascii '''')) of
        JStr s \<Rightarrow> Inr (py_or (JStr (take 2 (str_upper L s))) JNull)
      | _ \<Rightarrow> Inl AttributeError)"

text \<open>Lines 85 to 92 of \<^verbatim>\<open>geocode\<close>: the result built from a non-empty \<^verbatim>\<open>hits\<close>.\<close>

definition geo_of_hits :: "pylib \<Rightarrow> json \<Rightarrow> exn + dict" where
  "geo_of_hits L hits =
     (case py_first hits of
        Inl e \<Rightarrow> Inl e
      | Inr h \<Rightarrow>
     (case py_get h (ascii ''address'') (JObj []) of
        Inl e \<Rightarrow> Inl e
      | Inr adr \<Rightarrow>
     (case py_get adr (ascii ''country'') JNull of
        Inl e \<Rightarrow> Inl e
      | Inr c \<Rightarrow>
     (case py_get adr (ascii ''country_code'') JNull of
        Inl e \<Rightarrow> Inl e
      | Inr cc0 \<Rightarrow>
     (case country_code_of L cc0 of
        Inl e \<Rightarrow> Inl e
      | Inr cc \<Rightarrow>
     (case py_get h (ascii ''lat'') (JInt 0) of
        Inl e \<Rightarrow> Inl e
      | Inr la0 \<Rightarrow>
     (case float_or_none L la0 of
        Inl e \<Rightarrow> Inl e
      | Inr la \<Rightarrow>
     (case py_get h (ascii ''lon'') (JInt 0) of
        Inl e \<Rightarrow> Inl e
      | Inr lo0 \<Rightarrow>
     (case float_or_none L lo0 of
        Inl e \<Rightarrow> Inl e
      | Inr lo \<Rightarrow>
          Inr [(ascii ''country'', c), (ascii ''country_code'', cc), (ascii ''lat'', la), (ascii ''lng'', lo)])))))))))"

text \<open>
  The \<^verbatim>\<open>try\<close> block of \<^verbatim>\<open>geocode\<close> on the network's answer, \<^verbatim>\<open>result\<close> starting as
  \<^verbatim>\<open>{}\<close>: a \<^verbatim>\<open>RequestException\<close> is passed over, anything else propagates.
\<close>

definition geocode_result :: "pylib \<Rightarrow> response \<Rightarrow> exn + dict" where
  "geocode_result L resp =
     (case resp of
        TransportFailure \<Rightarrow> Inr []
      | Response code body \<Rightarrow>
          if code = 200 then
            (case body of
               None \<Rightarrow> Inr []
             | Some hits \<Rightarrow> if py_truthy hits then geo_of_hits L hits else Inr [])
          else Inr [])"

definition geocode :: "pylib \<Rightarrow> net \<Rightarrow> pystr \<Rightarrow> state \<Rightarrow> (exn + dict) \<times> state" where
  "geocode L nw loc s =
     (if loc = [] then (Inr [], s)
      else
        let key = py_strip L (str_lower L loc) in
        case geocode_cache s key of
          Some g \<Rightarrow> (Inr g, s)
        | None \<Rightarrow>
            let s1 = s\<lparr>net_calls := net_calls s @ [Nominatim loc]\<rparr> in
            (case geocode_result L (nw (length (net_calls s)) (Nominatim loc)) of
               Inl e \<Rightarrow> (Inl e, s1)
             | Inr result \<Rightarrow>
                 (Inr result,
                  s1\<lparr>geocode_cache := (geocode_cache s1)(key \<mapsto> result),
                     pauses := pauses s1 + 1\<rparr>)))"

subsection \<open>fetch\_profile\<close>

definition null_profile :: dict where
  "null_profile =
     [(ascii ''location'', JNull), (ascii ''company'', JNull), (ascii ''public_repos'', JNull),
      (ascii ''country'', JNull), (ascii ''country_code'', JNull), (ascii ''lat'', JNull), (ascii ''lng'', JNull)]"

text \<open>\<^verbatim>\<open>(x or "").strip("@ ").strip() or None\<close>\<close>

definition company_of :: "pylib \<Rightarrow> json \<Rightarrow> exn + json" where
  "company_of L x =
     (case py_or x (JStr (ascii '''')) of
        JStr s \<Rightarrow> Inr (py_or (JStr (py_strip L (strip_chars (ascii ''@ '') s))) JNull)
      | _ \<Rightarrow> Inl AttributeError)"

text \<open>
  The \<^verbatim>\<open>try\<close> block of \<^verbatim>\<open>fetch_profile\<close> on the network's answer: the profile after
  it, or the exception that leaves the function.
\<close>

definition profile_result :: "pylib \<Rightarrow> response \<Rightarrow> exn + dict" where
  "profile_result L resp =
     (case resp of
        TransportFailure \<Rightarrow> Inr null_profile
      | Response code body \<Rightarrow>
          if code = 200 then
            (case body of
               None \<Rightarrow> Inr null_profile
             | Some d \<Rightarrow>
            (case py_get d (ascii ''location'') JNull of
               Inl e \<Rightarrow> Inl e
             | Inr l \<Rightarrow>
            (case py_get d (ascii ''company'') JNull of
               Inl e \<Rightarrow> Inl e
             | Inr c0 \<Rightarrow>
            (case company_of L c0 of
               Inl e \<Rightarrow> Inl e
             | Inr c \<Rightarrow>
            (case py_get d (ascii ''public_repos'') JNull of
               Inl e \<Rightarrow> Inl e
             | Inr n \<Rightarrow>
                 Inr (AList.update (ascii ''public_repos'') n
                       (AList.update (ascii ''company'') c
                         (AList.update (ascii ''location'') (py_or l JNull) null_profile))))))))
          else Inr null_profile)"

text \<open>
  \<^verbatim>\<open>profile.update({k: geo.get(k) for k in ("country", "country_code", "lat", "lng")})\<close>
\<close>

definition merge_geo :: "dict \<Rightarrow> dict \<Rightarrow> dict" where
  "merge_geo geo profile =
     fold (\<lambda>k p. AList.update k (dict_get geo k JNull) p)
       [(ascii ''country''), (ascii ''country_code''), (ascii ''lat''), (ascii ''lng'')] profile"

text \<open>
  Keys of \<^verbatim>\<open>user_cache\<close>. A list or a dictionary is not hashable; \<^verbatim>\<open>True\<close>, \<^verbatim>\<open>1\<close> and
  \<^verbatim>\<open>1.0\<close> are one key.
\<close>

definition py_hashable :: "json \<Rightarrow> bool" where
  "py_hashable v = (case v of JArr _ \<Rightarrow> False | JObj _ \<Rightarrow> False | _ \<Rightarrow> True)"

definition py_key :: "json \<Rightarrow> json" where
  "py_key v =
     (case v of
        JBool b \<Rightarrow> JInt (if b then 1 else 0)
      | JFloat (PyFloat r) \<Rightarrow> (if of_int \<lfloor>r\<rfloor> = r then JInt \<lfloor>r\<rfloor> else v)
      | _ \<Rightarrow> v)"

definition fetch_profile :: "pylib \<Rightarrow> net \<Rightarrow> json \<Rightarrow> state \<Rightarrow> (exn + dict) \<times> state" where
  "fetch_profile L nw username s =
     (if \<not> py_hashable username then (Inl TypeError, s)
      else
        case user_cache s (py_key username) of
          Some p \<Rightarrow> (Inr p, s)
        | None \<Rightarrow>
            let rq = GithubUser (py_str L username);
                s1 = s\<lparr>net_calls := net_calls s @ [rq]\<rparr>
            in
            (case profile_result L (nw (length (net_calls s)) rq) of
               Inl e \<Rightarrow> (Inl e, s1)
             | Inr profile \<Rightarrow>
                 let l = dict_get profile (ascii ''location'') JNull in
                 (case (if py_truthy l then
                          (case l of
                             JStr loc \<Rightarrow>
                               (case geocode L nw loc s1 of
                                  (Inl e, s2) \<Rightarrow> (Inl e, s2)
                                | (Inr geo, s2) \<Rightarrow> (Inr (merge_geo geo profile), s2))
                           | _ \<Rightarrow> (Inl AttributeError, s1))
                        else (Inr profile, s1)) of
                    (Inl e, s2) \<Rightarrow> (Inl e, s2)
                  | (Inr profile', s2) \<Rightarrow>
                      (Inr profile',
                       s2\<lparr>user_cache := (user_cache s2)(py_key username \<mapsto> profile')\<rparr>))))"


section \<open>DB writer\<close>

text \<open>
  What the environment decides while one message is handled: the wall clock read by
  \<^verbatim>\<open>datetime.now(timezone.utc)\<close>, whether the server fails the statement of
  \<^verbatim>\<open>cur.execute\<close>, whether \<^verbatim>\<open>conn.commit\<close> and \<^verbatim>\<open>conn.rollback\<close> raise (each a
  \<^verbatim>\<open>psycopg2.Error\<close>), whether \<^verbatim>\<open>consumer.commit\<close> raises,
  and after how many refused attempts \<^verbatim>\<open>db_connect\<close> gets its connection (\<open>None\<close>:
  never, its \<^verbatim>\<open>while True\<close> loop does not return).
\<close>

record ienv =
  now :: int
  execute_fails :: bool
  db_commit_fails :: bool
  rollback_fails :: bool
  offset_commit_fails :: bool
  connect_after :: "nat option"

text \<open>Lines 178 to 182 of \<^verbatim>\<open>write_event\<close>: the timestamp of the row.\<close>

definition event_time :: "pylib \<Rightarrow> ienv \<Rightarrow> json \<Rightarrow> exn + int" where
  "event_time L ie event =
     (case py_get event (ascii ''created_at'') (JStr (ascii '''')) of
        Inl e \<Rightarrow> Inl e
      | Inr ts_raw \<Rightarrow>
          (case ts_raw of
             JStr t \<Rightarrow> (case strptime L t of Some ts \<Rightarrow> Inr ts | None \<Rightarrow> Inr (now ie))
           | _ \<Rightarrow> Inl TypeError))"

text \<open>
  Lines 184 to 199: the parameter dictionary of the statement, its values computed in
  the order of the source.
\<close>

definition insert_params :: "pylib \<Rightarrow> ienv \<Rightarrow> json \<Rightarrow> dict \<Rightarrow> exn + row" where
  "insert_params L ie event profile =
     (case event_time L ie event of
        Inl e \<Rightarrow> Inl e
      | Inr ts \<Rightarrow>
     (case py_get event (ascii ''id'') JNull of
        Inl e \<Rightarrow> Inl e
      | Inr eid \<Rightarrow>
     (case py_get event (ascii ''type'') JNull of
        Inl e \<Rightarrow> Inl e
      | Inr etype \<Rightarrow>
     (case py_get event (ascii ''actor'') (JObj []) of
        Inl e \<Rightarrow> Inl e
      | Inr a \<Rightarrow>
     (case py_get a (ascii ''login'') JNull of
        Inl e \<Rightarrow> Inl e
      | Inr login \<Rightarrow>
     (case py_get event (ascii ''repo'') (JObj []) of
        Inl e \<Rightarrow> Inl e
      | Inr r \<Rightarrow>
     (case py_get r (ascii ''name'') JNull of
        Inl e \<Rightarrow> Inl e
      | Inr name \<Rightarrow>
     (case extract_detail L event of
        Inl e \<Rightarrow> Inl e
      | Inr d \<Rightarrow>
     (case py_get event (ascii ''payload'') (JObj []) of
        Inl e \<Rightarrow> Inl e
      | Inr pl \<Rightarrow>
          Inr \<lparr>time = ts, event_id = eid, event_type = etype, actor = login, repo = name,
               detail = d,
               location = dict_get profile (ascii ''location'') JNull,
               country = dict_get profile (ascii ''country'') JNull,
               country_code = dict_get profile (ascii ''country_code'') JNull,
               lat = dict_get profile (ascii ''lat'') JNull,
               lng = dict_get profile (ascii ''lng'') JNull,
               company = dict_get profile (ascii ''company'') JNull,
               public_repos = dict_get profile (ascii ''public_repos'') JNull,
               payload = pl\<rparr>)))))))))"

text \<open>
  Modelled from the spec: the unique key of the \<^verbatim>\<open>events\<close> table, whose schema is not
  among the sources. \<^verbatim>\<open>ON CONFLICT DO NOTHING\<close> skips a row that violates a unique
  constraint; the spec's persisted row schema has \<^verbatim>\<open>event_id (unique)\<close> and "duplicate
  event\_id is ignored, not updated". As in SQL, a null \<^verbatim>\<open>event_id\<close> conflicts with
  nothing.
\<close>

definition conflicts :: "row \<Rightarrow> row list \<Rightarrow> bool" where
  "conflicts r rows = (event_id r \<noteq> JNull \<and> event_id r \<in> set (map event_id rows))"

text \<open>The first exception of a list of outcomes, if there is one.\<close>

fun first_error :: "exn option list \<Rightarrow> exn option" where
  "first_error [] = None"
| "first_error (None # es) = first_error es"
| "first_error (Some e # es) = Some e"

text \<open>
  What psycopg2 raises when it adapts a parameter, before anything is sent: a string is
  encoded as UTF-8, which a surrogate code point does not allow
  (\<^verbatim>\<open>UnicodeEncodeError\<close>), and must not contain the NUL character (\<^verbatim>\<open>ValueError\<close>); a
  list is adapted element by element; no adapter is registered for a dictionary
  (\<^verbatim>\<open>psycopg2.ProgrammingError\<close>).
\<close>

fun adapt_error :: "json \<Rightarrow> exn option" where
  "adapt_error (JStr t) =
     (if \<exists>c\<in>set t. 0xD800 \<le> c \<and> c \<le> 0xDFFF then Some UnicodeEncodeError
      else if 0 \<in> set t then Some ValueError
      else None)"
| "adapt_error (JArr xs) = first_error (map adapt_error xs)"
| "adapt_error (JObj kvs) = Some DBError"
| "adapt_error JNull = None"
| "adapt_error (JBool b) = None"
| "adapt_error (JInt i) = None"
| "adapt_error (JFloat f) = None"

text \<open>
  The parameters are adapted in the order of their placeholders in \<^verbatim>\<open>INSERT_SQL\<close>. The
  time is a \<^verbatim>\<open>datetime\<close> and the payload is wrapped in \<^verbatim>\<open>psycopg2.extras.Json\<close>, whose
  text \<^verbatim>\<open>json.dumps\<close> writes in ASCII with every other character escaped: neither fails.
\<close>

definition adapt_row :: "row \<Rightarrow> exn option" where
  "adapt_row r =
     first_error
       (map adapt_error
          [event_id r, event_type r, actor r, repo r, detail r, location r, country r,
           country_code r, lat r, lng r, company r, public_repos r])"

text \<open>
  \<^verbatim>\<open>cur.execute(INSERT_SQL, params)\<close>: the parameters are adapted, then the statement
  is sent; it sees the committed rows and those of its own transaction.
\<close>

definition db_execute :: "ienv \<Rightarrow> row \<Rightarrow> state \<Rightarrow> (exn + unit) \<times> state" where
  "db_execute ie r s =
     (case adapt_row r of
        Some e \<Rightarrow> (Inl e, s)
      | None \<Rightarrow>
          if execute_fails ie then (Inl DBError, s)
          else if conflicts r (db_committed s @ db_pending s) then (Inr (), s)
          else (Inr (), s\<lparr>db_pending := db_pending s @ [r]\<rparr>))"

definition write_event :: "pylib \<Rightarrow> ienv \<Rightarrow> json \<Rightarrow> dict \<Rightarrow> state \<Rightarrow> (exn + unit) \<times> state" where
  "write_event L ie event profile s =
     (case insert_params L ie event profile of
        Inl e \<Rightarrow> (Inl e, s)
      | Inr r \<Rightarrow> db_execute ie r s)"

section \<open>Main consumer loop\<close>

text \<open>
  The value of a polled message, as \<^verbatim>\<open>json.loads(msg.value().decode("utf-8"))\<close> finds
  it: no value at all (\<^verbatim>\<open>msg.value()\<close> is \<^verbatim>\<open>None\<close>), bytes that are not UTF-8, text that
  is not JSON, or the value parsed.
\<close>

datatype body = NoValue | NotUtf8 | NotJson | Parsed json

text \<open>
  What \<^verbatim>\<open>consumer.poll\<close> gives: nothing within the timeout, an error event (\<open>True\<close>
  for \<^verbatim>\<open>_PARTITION_EOF\<close>), a message together with what the environment does while it
  is handled, or the \<^verbatim>\<open>KeyboardInterrupt\<close> of the shutdown signal.
\<close>

datatype poll = PollNone | PollError bool | PollMsg body ienv | PollInterrupt

text \<open>
  Lines 242 to 250, the body of the inner \<^verbatim>\<open>try\<close>, for the message at offset \<open>i\<close>.
  \<^verbatim>\<open>consumer.commit\<close> commits the consumer's position.
\<close>

definition process_msg ::
    "pylib \<Rightarrow> net \<Rightarrow> ienv \<Rightarrow> nat \<Rightarrow> body \<Rightarrow> state \<Rightarrow> (exn + unit) \<times> state" where
  "process_msg L nw ie i b s =
     (case b of
        NoValue \<Rightarrow> (Inl AttributeError, s)
      | NotUtf8 \<Rightarrow> (Inl UnicodeDecodeError, s)
      | NotJson \<Rightarrow> (Inl JSONDecodeError, s)
      | Parsed event \<Rightarrow>
     (case py_get event (ascii ''actor'') (JObj []) of
        Inl e \<Rightarrow> (Inl e, s)
      | Inr a \<Rightarrow>
     (case py_get a (ascii ''login'') (JStr (ascii '''')) of
        Inl e \<Rightarrow> (Inl e, s)
      | Inr login \<Rightarrow>
     (case fetch_profile L nw login s of
        (Inl e, s1) \<Rightarrow> (Inl e, s1)
      | (Inr profile, s1) \<Rightarrow>
     (case write_event L ie event profile s1 of
        (Inl e, s2) \<Rightarrow> (Inl e, s2)
      | (Inr _, s2) \<Rightarrow>
          if db_commit_fails ie then (Inl DBError, s2)
          else
            let s3 = s2\<lparr>db_committed := db_committed s2 @ db_pending s2, db_pending := [],
                        trace := trace s2 @ [DbCommitted i]\<rparr>
            in
            if offset_commit_fails ie then (Inl KafkaException, s3)
            else
              (Inr (),
               s3\<lparr>committed_offset := position s3, processed := processed s3 + 1,
                  trace := trace s3 @ [OffsetCommitted i]\<rparr>))))))"

text \<open>How one pass of the loop ends.\<close>

datatype flow = Next | Raised exn | Blocked

text \<open>
  Lines 241 to 271: the inner \<^verbatim>\<open>try\<close> with its two handlers. An exception of neither
  class, and one raised by \<^verbatim>\<open>conn.rollback()\<close> inside a handler, leave the statement.
\<close>

definition handle_msg :: "pylib \<Rightarrow> net \<Rightarrow> ienv \<Rightarrow> nat \<Rightarrow> body \<Rightarrow> state \<Rightarrow> flow \<times> state" where
  "handle_msg L nw ie i b s =
     (case process_msg L nw ie i b s of
        (Inr _, s1) \<Rightarrow> (Next, s1)
      | (Inl e, s1) \<Rightarrow>
          if e = JSONDecodeError \<or> e = KeyError then
            let s2 = s1\<lparr>trace := trace s1 @ [SkippedMalformed i]\<rparr> in
            if rollback_fails ie then (Raised DBError, s2)
            else
              (Next, s2\<lparr>db_pending := [], errors := errors s2 + 1,
                        trace := trace s2 @ [RolledBack i]\<rparr>)
          else if e = DBError then
            let s2 = s1\<lparr>trace := trace s1 @ [DbFailed i]\<rparr> in
            if rollback_fails ie then (Raised DBError, s2)
            else
              let s3 = s2\<lparr>db_pending := [], trace := trace s2 @ [RolledBack i]\<rparr> in
              (case connect_after ie of
                 None \<Rightarrow> (Blocked, s3)
               | Some n \<Rightarrow>
                   (Next, s3\<lparr>errors := errors s3 + 1, trace := trace s3 @ [Reconnected i]\<rparr>))
          else (Raised e, s1))"

text \<open>
  How \<^verbatim>\<open>main\<close> stands after the polls given: still in its loop, returned after the
  shutdown signal, left by an exception, or waiting in \<^verbatim>\<open>db_connect\<close> for ever.
\<close>

datatype status = Running | Shutdown | Crashed exn | Waiting

text \<open>
  Lines 227 to 277: the loop over what \<^verbatim>\<open>consumer.poll\<close> returns, one element of the
  list per call. The shutdown signal is taken at \<^verbatim>\<open>poll\<close>, where the loop waits.
\<close>

fun main_loop :: "pylib \<Rightarrow> net \<Rightarrow> poll list \<Rightarrow> state \<Rightarrow> status \<times> state" where
  "main_loop L nw [] s = (Running, s)"
| "main_loop L nw (PollNone # ps) s = main_loop L nw ps s"
| "main_loop L nw (PollError eof # ps) s =
     main_loop L nw ps (if eof then s else s\<lparr>errors := errors s + 1\<rparr>)"
| "main_loop L nw (PollMsg b ie # ps) s =
     (case handle_msg L nw ie (position s) b (s\<lparr>position := position s + 1\<rparr>) of
        (Next, s') \<Rightarrow> main_loop L nw ps s'
      | (Raised e, s') \<Rightarrow> (Crashed e, s')
      | (Blocked, s') \<Rightarrow> (Waiting, s'))"
| "main_loop L nw (PollInterrupt # ps) s = (Shutdown, s)"

text \<open>The process at its start: empty caches, an empty table, nothing consumed.\<close>

definition init :: state where
  "init = \<lparr>user_cache = Map.empty, geocode_cache = Map.empty, net_calls = [], pauses = 0,
           db_committed = [], db_pending = [], position = 0, committed_offset = 0,
           processed = 0, errors = 0, trace = []\<rparr>"


section \<open>Notions used by the properties\<close>

text \<open>The key under which \<^verbatim>\<open>geocode\<close> caches a location: \<^verbatim>\<open>location.lower().strip()\<close>.\<close>

definition geo_key :: "pylib \<Rightarrow> pystr \<Rightarrow> pystr" where
  "geo_key L loc = py_strip L (str_lower L loc)"


text \<open>
  Answers of the network after which \<^verbatim>\<open>fetch_profile\<close> keeps its initial profile: a
  transport failure or a status other than 200.
\<close>

definition fetch_failed :: "response \<Rightarrow> bool" where
  "fetch_failed resp =
     (case resp of TransportFailure \<Rightarrow> True | Response code body \<Rightarrow> code \<noteq> 200)"

text \<open>The seven enrichment fields of a profile.\<close>

definition enrichment_fields :: "pystr list" where
  "enrichment_fields =
     [(ascii ''location''), (ascii ''company''), (ascii ''public_repos''), (ascii ''country''), (ascii ''country_code''), (ascii ''lat''), (ascii ''lng'')]"

definition all_null :: "dict \<Rightarrow> bool" where
  "all_null p = list_all (\<lambda>k. dict_get p k JNull = JNull) enrichment_fields"

text \<open>
  The states the process can be in later: after any further calls of \<^verbatim>\<open>geocode\<close> and
  \<^verbatim>\<open>fetch_profile\<close> and any further passes of the main loop, whatever the library, the
  network and the queue do.
\<close>

inductive later :: "state \<Rightarrow> state \<Rightarrow> bool" where
  now: "later s s"
| geocode: "later s s' \<Longrightarrow> later s (snd (geocode L nw loc s'))"
| fetch_profile: "later s s' \<Longrightarrow> later s (snd (fetch_profile L nw username s'))"
| main_loop: "later s s' \<Longrightarrow> later s (snd (main_loop L nw ps s'))"

text \<open>The rows with a given event id that a statement sees.\<close>

definition rows_with :: "json \<Rightarrow> state \<Rightarrow> row list" where
  "rows_with eid s = filter (\<lambda>r. event_id r = eid) (db_committed s @ db_pending s)"

text \<open>
  The write step run again and again: \<^verbatim>\<open>write_event\<close> once for each element of the
  list (what the environment does, the event, the profile), each on the state the one
  before left.
\<close>

fun write_all :: "pylib \<Rightarrow> (ienv \<times> json \<times> dict) list \<Rightarrow> state \<Rightarrow> state" where
  "write_all L [] s = s"
| "write_all L ((ie, event, profile) # ws) s =
     write_all L ws (snd (write_event L ie event profile s))"

text \<open>Whether a write step ends without an exception.\<close>

definition write_ok :: "pylib \<Rightarrow> ienv \<times> json \<times> dict \<Rightarrow> bool" where
  "write_ok L w =
     (case w of (ie, event, profile) \<Rightarrow>
        \<not> execute_fails ie \<and>
        (case insert_params L ie event profile of
           Inl e \<Rightarrow> False
         | Inr r \<Rightarrow> adapt_row r = None))"

text \<open>
  A trace in which the offset of a message is committed only straight after the
  database commit of the same message; \<open>prev\<close> is the action before the list.
\<close>

fun db_first :: "action option \<Rightarrow> action list \<Rightarrow> bool" where
  "db_first prev [] = True"
| "db_first prev (a # as) =
     ((case a of OffsetCommitted i \<Rightarrow> prev = Some (DbCommitted i) | _ \<Rightarrow> True) \<and>
      db_first (Some a) as)"

text \<open>The offset of the message an action belongs to.\<close>

fun offset_of :: "action \<Rightarrow> nat" where
  "offset_of (DbCommitted i) = i"
| "offset_of (OffsetCommitted i) = i"
| "offset_of (SkippedMalformed i) = i"
| "offset_of (DbFailed i) = i"
| "offset_of (RolledBack i) = i"
| "offset_of (Reconnected i) = i"

text \<open>
  A stretch of trace that is well ordered, belongs to the messages at offsets \<open>lo\<close> up
  to \<open>hi\<close>, and has no offset commit for a message that was skipped or whose write
  failed.
\<close>

definition trace_ok :: "nat \<Rightarrow> nat \<Rightarrow> action list \<Rightarrow> bool" where
  "trace_ok lo hi new =
     (db_first None new \<and> (\<forall>a\<in>set new. lo \<le> offset_of a \<and> offset_of a < hi) \<and>
      (\<forall>i. SkippedMalformed i \<in> set new \<or> DbFailed i \<in> set new
           \<longrightarrow> OffsetCommitted i \<notin> set new))"

subsection \<open>Environments for the examples\<close>

text \<open>
  A library that knows two floats and one timestamp, 2024-01-02T03:04:05Z in seconds
  since 1970. Its case mapping covers the letters of Basic Latin and those of Latin-1
  from \<open>U+00C0\<close> to \<open>U+00DE\<close> and their lower-case forms; its white space is that of
  \<^verbatim>\<open>str.isspace\<close>.
\<close>

definition lib_ex :: pylib where
  "lib_ex =
     \<lparr>str_of = (\<lambda>v. []),
      strptime = (\<lambda>t. if t = ascii ''2024-01-02T03:04:05Z'' then Some 1704164645 else None),
      float_of_str =
        (\<lambda>t. if t = ascii ''0.0'' then Some (PyFloat 0)
             else if t = ascii ''8.54'' then Some (PyFloat 8.54) else None),
      str_lower =
        map (\<lambda>c. if (65 \<le> c \<and> c \<le> 90) \<or> (192 \<le> c \<and> c \<le> 222 \<and> c \<noteq> 215)
                 then c + 32 else c),
      str_upper =
        map (\<lambda>c. if (97 \<le> c \<and> c \<le> 122) \<or> (224 \<le> c \<and> c \<le> 254 \<and> c \<noteq> 247)
                 then c - 32 else c),
      str_isspace =
        (\<lambda>c. c \<in> {0x09, 0x0A, 0x0B, 0x0C, 0x0D, 0x1C, 0x1D, 0x1E, 0x1F, 0x20, 0x85, 0xA0,
                  0x1680, 0x2028, 0x2029, 0x202F, 0x205F, 0x3000} \<or>
             (0x2000 \<le> c \<and> c \<le> 0x200A))\<rparr>"

text \<open>
  Two spellings of one place that ASCII does not write: the capitals Z, U with diaeresis
  (\<open>U+00DC\<close>), R, I, C, H; and the same letters in lower case (\<open>U+00FC\<close> for the
  second) between a space and a no-break space (\<open>U+00A0\<close>).
\<close>

definition zurich_upper :: pystr where
  "zurich_upper = [0x5A, 0xDC, 0x52, 0x49, 0x43, 0x48]"

definition zurich_spaced :: pystr where
  "zurich_spaced = [0x20, 0x7A, 0xFC, 0x72, 0x69, 0x63, 0x68, 0xA0]"

text \<open>A network that is down, and one that finds nothing.\<close>

definition net_down :: net where
  "net_down = (\<lambda>n rq. TransportFailure)"

definition net_404 :: net where
  "net_404 = (\<lambda>n rq. Response 404 None)"

text \<open>
  A network that knows one user, located in Zurich, and answers every geocoding query
  with one hit.
\<close>

definition net_ok :: net where
  "net_ok =
     (\<lambda>n rq.
        case rq of
          GithubUser u \<Rightarrow>
            Response 200
              (Some (JObj [(ascii ''location'', JStr (ascii ''Zurich, Switzerland'')),
                           (ascii ''company'', JStr (ascii ''@ZHAW '')), (ascii ''public_repos'', JInt 7)]))
        | Nominatim q \<Rightarrow>
            Response 200
              (Some (JArr [JObj [(ascii ''lat'', JStr (ascii ''0.0'')), (ascii ''lon'', JStr (ascii ''8.54'')),
                                 (ascii ''address'',
                                  JObj [(ascii ''country'', JStr (ascii ''Switzerland'')),
                                        (ascii ''country_code'', JStr (ascii ''ch''))])]])))"

text \<open>An environment in which the database and the queue do as asked, at second 99.\<close>

definition env_ok :: ienv where
  "env_ok = \<lparr>now = 99, execute_fails = False, db_commit_fails = False,
             rollback_fails = False, offset_commit_fails = False, connect_after = Some 0\<rparr>"

text \<open>
  An environment in which the server fails the statement, the rollback goes through and
  \<^verbatim>\<open>db_connect\<close> gets its connection after two refused attempts.
\<close>

definition env_db_down :: ienv where
  "env_db_down = \<lparr>now = 99, execute_fails = True, db_commit_fails = False,
                  rollback_fails = False, offset_commit_fails = False, connect_after = Some 2\<rparr>"

text \<open>A push event with three commits, and the same event with a timestamp that does not parse.\<close>

definition push_event :: json where
  "push_event =
     JObj [(ascii ''id'', JStr (ascii ''42'')), (ascii ''type'', JStr (ascii ''PushEvent'')),
           (ascii ''actor'', JObj [(ascii ''login'', JStr (ascii ''octocat''))]),
           (ascii ''repo'', JObj [(ascii ''name'', JStr (ascii ''octocat/hello''))]),
           (ascii ''payload'', JObj [(ascii ''commits'', JArr [JObj [], JObj [], JObj []])]),
           (ascii ''created_at'', JStr (ascii ''2024-01-02T03:04:05Z''))]"

text \<open>The push event with a null timestamp, and an issues event with another id.\<close>

definition push_event_no_time :: json where
  "push_event_no_time =
     JObj [(ascii ''id'', JStr (ascii ''42'')), (ascii ''type'', JStr (ascii ''PushEvent'')),
           (ascii ''actor'', JObj [(ascii ''login'', JStr (ascii ''octocat''))]),
           (ascii ''repo'', JObj [(ascii ''name'', JStr (ascii ''octocat/hello''))]),
           (ascii ''payload'', JObj [(ascii ''commits'', JArr [JObj [], JObj [], JObj []])]),
           (ascii ''created_at'', JNull)]"

definition issue_event :: json where
  "issue_event =
     JObj [(ascii ''id'', JStr (ascii ''43'')), (ascii ''type'', JStr (ascii ''IssuesEvent'')),
           (ascii ''actor'', JObj [(ascii ''login'', JStr (ascii ''octocat''))]),
           (ascii ''repo'', JObj [(ascii ''name'', JStr (ascii ''octocat/hello''))]),
           (ascii ''payload'', JObj [(ascii ''action'', JStr (ascii ''opened''))]),
           (ascii ''created_at'', JStr (ascii ''2024-01-02T03:04:05Z''))]"

definition push_event_bad_time :: json where
  "push_event_bad_time =
     JObj [(ascii ''id'', JStr (ascii ''42'')), (ascii ''type'', JStr (ascii ''PushEvent'')),
           (ascii ''actor'', JObj [(ascii ''login'', JStr (ascii ''octocat''))]),
           (ascii ''repo'', JObj [(ascii ''name'', JStr (ascii ''octocat/hello''))]),
           (ascii ''payload'', JObj [(ascii ''commits'', JArr [JObj [], JObj [], JObj []])]),
           (ascii ''created_at'', JStr (ascii ''yesterday''))]"


section \<open>Properties of the detail extractor\<close>

lemma ascii_eq_iff [simp]: "ascii a = ascii b \<longleftrightarrow> a = b"
  by (simp add: ascii_def inj_map_eq_map [OF inj_of_char])

lemma ascii_Nil [simp]: "ascii [] = []"
  by (simp add: ascii_def)

lemma ascii_eq_Nil [simp]: "ascii a = [] \<longleftrightarrow> a = []"
  by (simp add: ascii_def)

lemma length_ascii [simp]: "length (ascii a) = length a"
  by (simp add: ascii_def)

lemma py_get_obj: "py_get (JObj d) k dflt = Inr (dict_get d k dflt)"
  by (simp add: py_get_def)

lemma py_str_JStr [simp]: "py_str L (JStr u) = u"
  by (simp add: py_str_def)

lemma dict_get_update:
  "dict_get (AList.update k v d) k' dflt = (if k' = k then v else dict_get d k' dflt)"
  by (simp add: dict_get_def update_conv')

text \<open>
  Claim C8. The detail is a function of the event's type and payload alone, and follows
  the table: for a push event the length of the commits list followed by
  \<^verbatim>\<open> commit(s)\<close>; for a pull request or issues event the payload's action (the empty
  string when there is none); for a create event the ref type, a space and the ref in
  single quotes; for a watch event the payload's action, \<^verbatim>\<open>starred\<close> when there is none;
  for a release event \<^verbatim>\<open>tag\<close>, a space and the release's tag name; for any other type
  the empty string. The event is a dictionary and, where the payload is read, so is the
  payload; a field inserted into a string is inserted as \<^verbatim>\<open>str()\<close> renders it.
\<close>

theorem extract_detail_table:
  "(dict_get ev (ascii ''type'') (JStr (ascii '''')) = JStr (ascii ''PushEvent'') \<and>
      dict_get ev (ascii ''payload'') (JObj []) = JObj pl \<and> dict_get pl (ascii ''commits'') (JArr []) = JArr cs
      \<longrightarrow> extract_detail L (JObj ev) = Inr (JStr (digits (length cs) @ (ascii '' commit(s)'')))) \<and>
   (dict_get ev (ascii ''type'') (JStr (ascii '''')) \<in> {JStr (ascii ''PullRequestEvent''), JStr (ascii ''IssuesEvent'')} \<and>
      dict_get ev (ascii ''payload'') (JObj []) = JObj pl
      \<longrightarrow> extract_detail L (JObj ev) = Inr (dict_get pl (ascii ''action'') (JStr (ascii '''')))) \<and>
   (dict_get ev (ascii ''type'') (JStr (ascii '''')) = JStr (ascii ''CreateEvent'') \<and>
      dict_get ev (ascii ''payload'') (JObj []) = JObj pl
      \<longrightarrow> extract_detail L (JObj ev) =
            Inr (JStr (py_str L (dict_get pl (ascii ''ref_type'') (JStr (ascii ''''))) @
                       ascii [CHR '' '', CHR 0x27] @
                       py_str L (dict_get pl (ascii ''ref'') (JStr (ascii ''''))) @
                       ascii [CHR 0x27]))) \<and>
   (dict_get ev (ascii ''type'') (JStr (ascii '''')) = JStr (ascii ''WatchEvent'') \<and>
      dict_get ev (ascii ''payload'') (JObj []) = JObj pl
      \<longrightarrow> extract_detail L (JObj ev) = Inr (dict_get pl (ascii ''action'') (JStr (ascii ''starred'')))) \<and>
   (dict_get ev (ascii ''type'') (JStr (ascii '''')) = JStr (ascii ''ReleaseEvent'') \<and>
      dict_get ev (ascii ''payload'') (JObj []) = JObj pl \<and> dict_get pl (ascii ''release'') (JObj []) = JObj rel
      \<longrightarrow> extract_detail L (JObj ev) =
            Inr (JStr ((ascii ''tag '') @ py_str L (dict_get rel (ascii ''tag_name'') (JStr (ascii '''')))))) \<and>
   (dict_get ev (ascii ''type'') (JStr (ascii '''')) \<notin>
        {JStr (ascii ''PushEvent''), JStr (ascii ''PullRequestEvent''), JStr (ascii ''IssuesEvent''), JStr (ascii ''CreateEvent''),
         JStr (ascii ''WatchEvent''), JStr (ascii ''ReleaseEvent'')}
      \<longrightarrow> extract_detail L (JObj ev) = Inr (JStr (ascii ''''))) \<and>
   (dict_get ev (ascii ''type'') (JStr (ascii '''')) = dict_get ev' (ascii ''type'') (JStr (ascii '''')) \<and>
      dict_get ev (ascii ''payload'') (JObj []) = dict_get ev' (ascii ''payload'') (JObj [])
      \<longrightarrow> extract_detail L (JObj ev) = extract_detail L (JObj ev'))"
  by (auto simp add: extract_detail_def py_get_obj py_len_def py_str_def)

text \<open>
  The examples of the spec: a push event with three commits, a watch event with an empty
  payload, a release event with tag \<^verbatim>\<open>v2.0\<close>, a create event for the branch \<^verbatim>\<open>main\<close>;
  and a fork event, which has no detail.
\<close>

theorem extract_detail_table_witness:
  "extract_detail lib_ex push_event = Inr (JStr (ascii ''3 commit(s)'')) \<and>
   extract_detail lib_ex (JObj [(ascii ''type'', JStr (ascii ''WatchEvent'')), (ascii ''payload'', JObj [])]) =
     Inr (JStr (ascii ''starred'')) \<and>
   extract_detail lib_ex
     (JObj [(ascii ''type'', JStr (ascii ''ReleaseEvent'')),
            (ascii ''payload'', JObj [(ascii ''release'', JObj [(ascii ''tag_name'', JStr (ascii ''v2.0''))])])]) =
     Inr (JStr (ascii ''tag v2.0'')) \<and>
   extract_detail lib_ex
     (JObj [(ascii ''type'', JStr (ascii ''CreateEvent'')),
            (ascii ''payload'', JObj [(ascii ''ref_type'', JStr (ascii ''branch'')), (ascii ''ref'', JStr (ascii ''main''))])]) =
     Inr (JStr (ascii [CHR ''b'', CHR ''r'', CHR ''a'', CHR ''n'', CHR ''c'', CHR ''h'', CHR '' '',
                       CHR 0x27, CHR ''m'', CHR ''a'', CHR ''i'', CHR ''n'', CHR 0x27])) \<and>
   extract_detail lib_ex (JObj [(ascii ''type'', JStr (ascii ''ForkEvent''))]) = Inr (JStr (ascii ''''))"
proof -
  let ?commits = "[JObj [], JObj [], JObj []]"
  have push: "push_event = JObj
      [(ascii ''id'', JStr (ascii ''42'')), (ascii ''type'', JStr (ascii ''PushEvent'')),
       (ascii ''actor'', JObj [(ascii ''login'', JStr (ascii ''octocat''))]),
       (ascii ''repo'', JObj [(ascii ''name'', JStr (ascii ''octocat/hello''))]),
       (ascii ''payload'', JObj [(ascii ''commits'', JArr ?commits)]),
       (ascii ''created_at'', JStr (ascii ''2024-01-02T03:04:05Z''))]"
    by (simp add: push_event_def)
  show ?thesis
    unfolding push
    using
      extract_detail_table [where L = lib_ex and cs = ?commits
        and pl = "[(ascii ''commits'', JArr ?commits)]"
        and ev = "[(ascii ''id'', JStr (ascii ''42'')), (ascii ''type'', JStr (ascii ''PushEvent'')),
                   (ascii ''actor'', JObj [(ascii ''login'', JStr (ascii ''octocat''))]),
                   (ascii ''repo'', JObj [(ascii ''name'', JStr (ascii ''octocat/hello''))]),
                   (ascii ''payload'', JObj [(ascii ''commits'', JArr ?commits)]),
                   (ascii ''created_at'', JStr (ascii ''2024-01-02T03:04:05Z''))]"]
      extract_detail_table [where L = lib_ex and pl = "[]"
        and ev = "[(ascii ''type'', JStr (ascii ''WatchEvent'')), (ascii ''payload'', JObj [])]"]
      extract_detail_table [where L = lib_ex and rel = "[(ascii ''tag_name'', JStr (ascii ''v2.0''))]"
        and pl = "[(ascii ''release'', JObj [(ascii ''tag_name'', JStr (ascii ''v2.0''))])]"
        and ev = "[(ascii ''type'', JStr (ascii ''ReleaseEvent'')),
                   (ascii ''payload'', JObj [(ascii ''release'', JObj [(ascii ''tag_name'', JStr (ascii ''v2.0''))])])]"]
      extract_detail_table [where L = lib_ex
        and pl = "[(ascii ''ref_type'', JStr (ascii ''branch'')), (ascii ''ref'', JStr (ascii ''main''))]"
        and ev = "[(ascii ''type'', JStr (ascii ''CreateEvent'')),
                   (ascii ''payload'', JObj [(ascii ''ref_type'', JStr (ascii ''branch'')), (ascii ''ref'', JStr (ascii ''main''))])]"]
      extract_detail_table [where L = lib_ex and ev = "[(ascii ''type'', JStr (ascii ''ForkEvent''))]"]
    by (simp add: dict_get_def digits.simps ascii_def)
qed


section \<open>Properties of geocode\<close>

lemma init_simps [simp]:
  "user_cache init = Map.empty" "geocode_cache init = Map.empty" "net_calls init = []"
  "pauses init = 0" "db_committed init = []" "db_pending init = []" "position init = 0"
  "committed_offset init = 0" "processed init = 0" "errors init = 0" "trace init = []"
  by (simp_all add: init_def)

lemma geo_key_ex1: "geo_key lib_ex (ascii ''Zurich, Switzerland'') = ascii ''zurich, switzerland''"
  by (simp add: geo_key_def py_strip_def lib_ex_def ascii_def)

lemma geo_key_ex2:
  "geo_key lib_ex (ascii ''  zurich, switzerland '') = ascii ''zurich, switzerland''"
  by (simp add: geo_key_def py_strip_def lib_ex_def ascii_def)

lemma geo_key_ex3: "geo_key lib_ex zurich_upper = [0x7A, 0xFC, 0x72, 0x69, 0x63, 0x68]"
  by (simp add: geo_key_def py_strip_def lib_ex_def zurich_upper_def)

lemma geo_key_ex4: "geo_key lib_ex zurich_spaced = [0x7A, 0xFC, 0x72, 0x69, 0x63, 0x68]"
  by (simp add: geo_key_def py_strip_def lib_ex_def zurich_spaced_def)

lemma upper_ch: "str_upper lib_ex (ascii ''ch'') = ascii ''CH''"
  by (simp add: lib_ex_def ascii_def)

subsection \<open>The three ways through the function\<close>


lemma geocode_hit:
  "loc \<noteq> [] \<Longrightarrow> geocode_cache s (geo_key L loc) = Some g \<Longrightarrow> geocode L nw loc s = (Inr g, s)"
  by (simp add: geocode_def geo_key_def)

lemma geocode_miss:
  "loc \<noteq> [] \<Longrightarrow> geocode_cache s (geo_key L loc) = None \<Longrightarrow>
   geocode L nw loc s =
     (case geocode_result L (nw (length (net_calls s)) (Nominatim loc)) of
        Inl e \<Rightarrow> (Inl e, s\<lparr>net_calls := net_calls s @ [Nominatim loc]\<rparr>)
      | Inr result \<Rightarrow>
          (Inr result,
           s\<lparr>net_calls := net_calls s @ [Nominatim loc],
             geocode_cache := (geocode_cache s)(geo_key L loc \<mapsto> result),
             pauses := pauses s + 1\<rparr>))"
  by (simp add: geocode_def geo_key_def Let_def split: sum.splits)

lemma geocode_returns_cached:
  assumes "loc \<noteq> []" and "geocode L nw loc s = (Inr g, s1)"
  shows "geocode_cache s1 (geo_key L loc) = Some g"
proof (cases "geocode_cache s (geo_key L loc)")
  case None
  with assms show ?thesis
    by (auto simp add: geocode_miss split: sum.splits)
next
  case (Some g')
  with assms show ?thesis
    by (simp add: geocode_hit)
qed

lemma geocode_calls:
  assumes "loc \<noteq> []" and "geocode L nw loc s = (Inr g, s1)"
  shows "net_calls s1 =
           net_calls s @ (if geocode_cache s (geo_key L loc) = None then [Nominatim loc] else [])"
proof (cases "geocode_cache s (geo_key L loc)")
  case None
  with assms show ?thesis
    by (auto simp add: geocode_miss split: sum.splits)
next
  case (Some g')
  with assms show ?thesis
    by (simp add: geocode_hit)
qed



text \<open>What the example network's one hit gives, for any query.\<close>

lemma geocode_result_ok:
  "geocode_result lib_ex (net_ok n (Nominatim q)) =
     Inr [(ascii ''country'', JStr (ascii ''Switzerland'')), (ascii ''country_code'', JStr (ascii ''CH'')),
          (ascii ''lat'', JNull), (ascii ''lng'', JFloat (PyFloat 8.54))]"
proof -
  have floats: "float_of_str lib_ex (ascii ''0.0'') = Some (PyFloat 0)"
    "float_of_str lib_ex (ascii ''8.54'') = Some (PyFloat 8.54)"
    by (simp_all add: lib_ex_def)
  show ?thesis
    by (simp add: net_ok_def geocode_result_def py_truthy_def geo_of_hits_def
        py_first_def py_get_def dict_get_def country_code_of_def py_or_def upper_ch
        float_or_none_def py_float_def floats float_truthy_def)
qed

text \<open>The first lookup of Zurich on the example network, computed.\<close>

lemma geocode_zurich:
  "geocode lib_ex net_ok (ascii ''Zurich, Switzerland'') init =
     (Inr [(ascii ''country'', JStr (ascii ''Switzerland'')), (ascii ''country_code'', JStr (ascii ''CH'')),
           (ascii ''lat'', JNull), (ascii ''lng'', JFloat (PyFloat 8.54))],
      init\<lparr>net_calls := [Nominatim (ascii ''Zurich, Switzerland'')],
           geocode_cache :=
             [ascii ''zurich, switzerland'' \<mapsto>
                [(ascii ''country'', JStr (ascii ''Switzerland'')),
                 (ascii ''country_code'', JStr (ascii ''CH'')),
                 (ascii ''lat'', JNull), (ascii ''lng'', JFloat (PyFloat 8.54))]],
           pauses := 1\<rparr>)"
  apply (subst geocode_miss)
    apply simp
   apply simp
  apply (simp add: geo_key_ex1 geocode_result_ok)
  done

lemma geocode_zurich_upper:
  "geocode lib_ex net_ok zurich_upper init =
     (Inr [(ascii ''country'', JStr (ascii ''Switzerland'')), (ascii ''country_code'', JStr (ascii ''CH'')),
           (ascii ''lat'', JNull), (ascii ''lng'', JFloat (PyFloat 8.54))],
      init\<lparr>net_calls := [Nominatim zurich_upper],
           geocode_cache :=
             [[0x7A, 0xFC, 0x72, 0x69, 0x63, 0x68] \<mapsto>
                [(ascii ''country'', JStr (ascii ''Switzerland'')),
                 (ascii ''country_code'', JStr (ascii ''CH'')),
                 (ascii ''lat'', JNull), (ascii ''lng'', JFloat (PyFloat 8.54))]],
           pauses := 1\<rparr>)"
  apply (subst geocode_miss)
    apply (simp add: zurich_upper_def)
   apply simp
  apply (simp add: geo_key_ex3 geocode_result_ok)
  done

subsection \<open>The cache key\<close>

text \<open>
  Claim C6. The geocode cache is keyed by \<^verbatim>\<open>location.lower().strip()\<close>, with the case
  mapping and the white space of the Python library, whatever they are. When two
  non-empty locations have the same key and the lookup of the first returns a result,
  the lookup of the second returns that result from the cache and leaves the state as
  it is, whatever the network would answer; the two lookups together have issued one
  geocoding call, for the first location, when its key was not cached before, and none
  when it was.
\<close>

theorem geocode_cache_keyed_by_lower_strip:
  assumes "loc1 \<noteq> []" and "loc2 \<noteq> []" and "geo_key L loc1 = geo_key L loc2"
    and "geocode L nw loc1 s = (Inr g, s1)"
  shows "geocode L nw' loc2 s1 = (Inr g, s1) \<and>
         net_calls (snd (geocode L nw' loc2 s1)) =
           net_calls s @
             (if geocode_cache s (geo_key L loc1) = None then [Nominatim loc1] else [])"
proof -
  have "geocode_cache s1 (geo_key L loc2) = Some g"
    using assms geocode_returns_cached by metis
  then have second: "geocode L nw' loc2 s1 = (Inr g, s1)"
    using assms(2) by (rule_tac geocode_hit)
  show ?thesis
    using second geocode_calls [OF assms(1) assms(4)] by simp
qed

text \<open>
  The example of the spec: \<^verbatim>\<open>"Zurich, Switzerland"\<close>, then \<^verbatim>\<open>"  zurich, switzerland "\<close>
  with the network down; and the two spellings outside ASCII, the second with a
  no-break space at its end. In both, one call has been issued, the one for the first
  spelling.
\<close>

theorem geocode_cache_keyed_by_lower_strip_witness:
  "geocode lib_ex net_down (ascii ''  zurich, switzerland '')
     (snd (geocode lib_ex net_ok (ascii ''Zurich, Switzerland'') init)) =
     (Inr [(ascii ''country'', JStr (ascii ''Switzerland'')), (ascii ''country_code'', JStr (ascii ''CH'')),
           (ascii ''lat'', JNull), (ascii ''lng'', JFloat (PyFloat 8.54))],
      snd (geocode lib_ex net_ok (ascii ''Zurich, Switzerland'') init)) \<and>
   net_calls (snd (geocode lib_ex net_down (ascii ''  zurich, switzerland '')
                     (snd (geocode lib_ex net_ok (ascii ''Zurich, Switzerland'') init)))) =
     [Nominatim (ascii ''Zurich, Switzerland'')] \<and>
   geocode lib_ex net_down zurich_spaced (snd (geocode lib_ex net_ok zurich_upper init)) =
     (Inr [(ascii ''country'', JStr (ascii ''Switzerland'')), (ascii ''country_code'', JStr (ascii ''CH'')),
           (ascii ''lat'', JNull), (ascii ''lng'', JFloat (PyFloat 8.54))],
      snd (geocode lib_ex net_ok zurich_upper init)) \<and>
   net_calls (snd (geocode lib_ex net_down zurich_spaced
                     (snd (geocode lib_ex net_ok zurich_upper init)))) =
     [Nominatim zurich_upper]"
proof -
  have nonempty: "zurich_upper \<noteq> []" "zurich_spaced \<noteq> []"
    by (simp_all add: zurich_upper_def zurich_spaced_def)
  show ?thesis
    using
      geocode_cache_keyed_by_lower_strip [of "ascii ''Zurich, Switzerland''"
        "ascii ''  zurich, switzerland ''" lib_ex net_ok init _ _ net_down,
        OF _ _ _ geocode_zurich]
      geocode_cache_keyed_by_lower_strip [of zurich_upper zurich_spaced lib_ex net_ok init _ _
        net_down, OF nonempty _ geocode_zurich_upper]
    by (simp add: geo_key_ex1 geo_key_ex2 geo_key_ex3 geo_key_ex4 geocode_zurich
        geocode_zurich_upper)
qed

subsection \<open>Failed lookups\<close>




subsection \<open>Coordinates that are zero\<close>

text \<open>
  Claim C10. When the lookup of a location goes to the network and returns a result
  built from the first hit, a latitude of that hit that \<^verbatim>\<open>float()\<close> converts to zero
  (the default 0 of a missing one included) is null in the result, and so is a longitude.
\<close>

theorem geocode_zero_coordinate_null:
  assumes "loc \<noteq> []" and "geocode_cache s (geo_key L loc) = None"
    and "nw (length (net_calls s)) (Nominatim loc) = Response 200 (Some hits)"
    and "py_truthy hits" and "py_first hits = Inr h"
    and "geocode L nw loc s = (Inr g, s')"
  shows "(\<forall>v. py_get h (ascii ''lat'') (JInt 0) = Inr v \<and> py_float L v = Inr (PyFloat 0)
             \<longrightarrow> dict_get g (ascii ''lat'') (JStr (ascii ''absent'')) = JNull) \<and>
         (\<forall>v. py_get h (ascii ''lon'') (JInt 0) = Inr v \<and> py_float L v = Inr (PyFloat 0)
             \<longrightarrow> dict_get g (ascii ''lng'') (JStr (ascii ''absent'')) = JNull)"
proof -
  from assms have "geo_of_hits L hits = Inr g"
    by (auto simp add: geocode_miss geocode_result_def split: sum.splits)
  with assms(5) show ?thesis
    by (auto simp add: geo_of_hits_def float_or_none_def float_truthy_def dict_get_def
        split: sum.splits)
qed

text \<open>The hit of the example network has latitude \<^verbatim>\<open>"0.0"\<close>.\<close>

theorem geocode_zero_coordinate_null_witness:
  "py_float lib_ex (JStr (ascii ''0.0'')) = Inr (PyFloat 0) \<and>
   dict_get (projr (fst (geocode lib_ex net_ok (ascii ''Zurich, Switzerland'') init)))
     (ascii ''lat'') (JStr (ascii ''absent'')) = JNull"
proof -
  let ?h = "JObj [(ascii ''lat'', JStr (ascii ''0.0'')), (ascii ''lon'', JStr (ascii ''8.54'')),
                  (ascii ''address'',
                   JObj [(ascii ''country'', JStr (ascii ''Switzerland'')),
                         (ascii ''country_code'', JStr (ascii ''ch''))])]"
  have zero: "py_float lib_ex (JStr (ascii ''0.0'')) = Inr (PyFloat 0)"
    by (simp add: py_float_def lib_ex_def)
  have "net_ok (length (net_calls init)) (Nominatim (ascii ''Zurich, Switzerland'')) =
          Response 200 (Some (JArr [?h]))"
    by (simp add: net_ok_def)
  moreover have "py_truthy (JArr [?h])" and "py_first (JArr [?h]) = Inr ?h"
    by (simp_all add: py_truthy_def py_first_def)
  ultimately have
    "\<forall>v. py_get ?h (ascii ''lat'') (JInt 0) = Inr v \<and> py_float lib_ex v = Inr (PyFloat 0)
         \<longrightarrow> dict_get (projr (fst (geocode lib_ex net_ok (ascii ''Zurich, Switzerland'') init)))
               (ascii ''lat'') (JStr (ascii ''absent'')) = JNull"
    using geocode_zero_coordinate_null [of "ascii ''Zurich, Switzerland''" init lib_ex net_ok
        "JArr [?h]" ?h _ _, OF _ _ _ _ _ geocode_zurich]
    by (simp add: geocode_zurich geo_key_ex1)
  then show ?thesis
    using zero by (simp add: py_get_def dict_get_def)
qed


section \<open>Properties of fetch\_profile\<close>

lemma geocode_user_cache [simp]: "user_cache (snd (geocode L nw loc s)) = user_cache s"
  by (simp add: geocode_def Let_def split: option.splits sum.splits)

lemma geocode_db [simp]:
  "db_committed (snd (geocode L nw loc s)) = db_committed s"
  "db_pending (snd (geocode L nw loc s)) = db_pending s"
  "position (snd (geocode L nw loc s)) = position s"
  "committed_offset (snd (geocode L nw loc s)) = committed_offset s"
  "processed (snd (geocode L nw loc s)) = processed s"
  "errors (snd (geocode L nw loc s)) = errors s"
  "trace (snd (geocode L nw loc s)) = trace s"
  by (simp_all add: geocode_def Let_def split: option.splits sum.splits)

lemma geocode_user_cacheD:
  "geocode L nw loc s = (r, s') \<Longrightarrow> user_cache s' = user_cache s"
  using geocode_user_cache [of L nw loc s] by simp

lemma fetch_profile_hit:
  "py_hashable u \<Longrightarrow> user_cache s (py_key u) = Some p \<Longrightarrow> fetch_profile L nw u s = (Inr p, s)"
  by (simp add: fetch_profile_def)

lemma profile_result_failed: "fetch_failed resp \<Longrightarrow> profile_result L resp = Inr null_profile"
  by (auto simp add: fetch_failed_def profile_result_def split: response.splits)

lemma null_profile_location: "dict_get null_profile (ascii ''location'') JNull = JNull"
  by (simp add: null_profile_def dict_get_def)

lemma fetch_profile_failed:
  assumes "py_hashable u" and "user_cache s (py_key u) = None"
    and "fetch_failed (nw (length (net_calls s)) (GithubUser (py_str L u)))"
  shows "fetch_profile L nw u s =
           (Inr null_profile,
            s\<lparr>net_calls := net_calls s @ [GithubUser (py_str L u)],
              user_cache := (user_cache s)(py_key u \<mapsto> null_profile)\<rparr>)"
  using assms
  by (simp add: fetch_profile_def Let_def profile_result_failed null_profile_location py_truthy_def)

lemma all_null_null_profile: "all_null null_profile"
  by (simp add: all_null_def enrichment_fields_def null_profile_def dict_get_def)

lemma py_key_JStr [simp]: "py_key (JStr u) = JStr u"
  by (simp add: py_key_def)

lemma py_hashable_JStr [simp]: "py_hashable (JStr u)"
  by (simp add: py_hashable_def)

text \<open>
  Claim C4. For every login, when the answer to the profile request is a transport
  failure or a status other than 200, \<^verbatim>\<open>fetch_profile\<close> returns a profile and raises
  nothing; when the login is not cached, so that the request is made, the profile
  returned is the initial one, in which all seven enrichment fields are null, and it is
  the one stored in the cache.
\<close>

theorem fetch_profile_failure_all_null:
  assumes "fetch_failed (nw (length (net_calls s)) (GithubUser u))"
  shows "(\<exists>p. fst (fetch_profile L nw (JStr u) s) = Inr p) \<and>
         (user_cache s (JStr u) = None \<longrightarrow>
            fst (fetch_profile L nw (JStr u) s) = Inr null_profile \<and>
            user_cache (snd (fetch_profile L nw (JStr u) s)) (JStr u) = Some null_profile) \<and>
         all_null null_profile"
proof (cases "user_cache s (JStr u)")
  case None
  then show ?thesis
    using assms by (simp add: fetch_profile_failed all_null_null_profile)
next
  case (Some p)
  then show ?thesis
    by (simp add: fetch_profile_hit all_null_null_profile)
qed

theorem fetch_profile_failure_all_null_witness:
  "fst (fetch_profile lib_ex net_404 (JStr (ascii ''octocat'')) init) = Inr null_profile \<and>
   user_cache (snd (fetch_profile lib_ex net_404 (JStr (ascii ''octocat'')) init)) (JStr (ascii ''octocat'')) =
     Some null_profile \<and>
   all_null null_profile"
  using fetch_profile_failure_all_null [of net_404 init "(ascii ''octocat'')" lib_ex]
  by (simp add: fetch_failed_def net_404_def)

lemma fetch_profile_keeps:
  assumes "user_cache s k = Some p"
  shows "user_cache (snd (fetch_profile L nw u s)) k = Some p"
proof (cases "py_hashable u \<and> user_cache s (py_key u) = None")
  case False
  then show ?thesis
    using assms by (auto simp add: fetch_profile_def)
next
  case True
  then have "k \<noteq> py_key u"
    using assms by auto
  then show ?thesis
    using assms True
    by (auto simp add: fetch_profile_def Let_def dest!: geocode_user_cacheD
        split: sum.splits prod.splits json.splits if_splits)
qed

lemma fetch_profile_returns_cached:
  assumes "fetch_profile L nw u s = (Inr p, s1)"
  shows "py_hashable u \<and> user_cache s1 (py_key u) = Some p"
  using assms
  by (auto simp add: fetch_profile_def Let_def dest!: geocode_user_cacheD
      split: sum.splits prod.splits json.splits if_splits option.splits)

lemma geocode_frame:
  assumes "geocode L nw loc s = (r, s')"
  shows "trace s' = trace s \<and> position s' = position s \<and> db_committed s' = db_committed s \<and>
         db_pending s' = db_pending s \<and> committed_offset s' = committed_offset s \<and>
         processed s' = processed s \<and> errors s' = errors s"
  using assms geocode_db [of L nw loc s] by simp

lemma fetch_profile_frame:
  assumes "fetch_profile L nw u s = (r, s')"
  shows "trace s' = trace s \<and> position s' = position s \<and> db_committed s' = db_committed s \<and>
         db_pending s' = db_pending s \<and> committed_offset s' = committed_offset s \<and>
         processed s' = processed s \<and> errors s' = errors s"
  using assms
  by (auto simp add: fetch_profile_def Let_def dest!: geocode_frame
      split: sum.splits prod.splits json.splits if_splits option.splits)

lemma db_execute_cases:
  "db_execute ie r s = (res, s') \<Longrightarrow>
     ((\<exists>e. res = Inl e) \<and> s' = s) \<or> (res = Inr () \<and> s' = s) \<or>
     (res = Inr () \<and> s' = s\<lparr>db_pending := db_pending s @ [r]\<rparr>)"
  by (auto simp add: db_execute_def split: if_splits option.splits)

lemma write_event_frame:
  assumes "write_event L ie ev p s = (res, s')"
  shows "user_cache s' = user_cache s \<and> geocode_cache s' = geocode_cache s \<and>
         net_calls s' = net_calls s \<and> trace s' = trace s \<and> position s' = position s \<and>
         db_committed s' = db_committed s \<and> committed_offset s' = committed_offset s \<and>
         processed s' = processed s \<and> errors s' = errors s"
  using assms
  by (auto simp add: write_event_def dest!: db_execute_cases split: sum.splits)

lemma fetch_profile_keepsD:
  "fetch_profile L nw u s = (r, s') \<Longrightarrow> user_cache s k = Some p \<Longrightarrow> user_cache s' k = Some p"
  using fetch_profile_keeps [of s k p L nw u] by simp

lemma process_msg_keeps:
  assumes "process_msg L nw ie i b s = (r, s')" and "user_cache s k = Some p"
  shows "user_cache s' k = Some p"
  using assms
  by (auto simp add: process_msg_def Let_def
      dest!: write_event_frame dest: fetch_profile_keepsD
      split: body.splits sum.splits prod.splits if_splits)

lemma handle_msg_keeps:
  assumes "handle_msg L nw ie i b s = (r, s')" and "user_cache s k = Some p"
  shows "user_cache s' k = Some p"
  using assms
  by (auto simp add: handle_msg_def Let_def dest: process_msg_keeps
      split: sum.splits prod.splits if_splits option.splits)

lemma main_loop_keeps:
  "user_cache s k = Some p \<Longrightarrow> user_cache (snd (main_loop L nw ps s)) k = Some p"
proof (induction L nw ps s rule: main_loop.induct)
  case (4 L nw b ie ps s)
  obtain f s' where h: "handle_msg L nw ie (position s) b (s\<lparr>position := position s + 1\<rparr>) = (f, s')"
    by fastforce
  then have "user_cache s' k = Some p"
    using handle_msg_keeps [OF h] "4.prems" by simp
  then show ?case
    using h "4.IH" by (cases f) simp_all
qed simp_all

lemma later_keeps:
  "later s s' \<Longrightarrow> user_cache s k = Some p \<Longrightarrow> user_cache s' k = Some p"
  by (induction rule: later.induct) (simp_all add: fetch_profile_keeps main_loop_keeps)

text \<open>
  Claim C5. Once \<^verbatim>\<open>fetch_profile\<close> has returned a profile for a login, fetched or
  all null, every call with the same login in any later state of the process returns
  that profile and leaves the state as it is: the list of network calls issued does not
  grow, whatever library and network the later call runs with.
\<close>

theorem profile_cached_for_good:
  assumes "fetch_profile L nw username s = (Inr p, s1)" and "later s1 s2"
  shows "fetch_profile L' nw' username s2 = (Inr p, s2) \<and>
         net_calls (snd (fetch_profile L' nw' username s2)) = net_calls s2"
proof -
  have "py_hashable username" and "user_cache s1 (py_key username) = Some p"
    using fetch_profile_returns_cached [OF assms(1)] by simp_all
  then have "fetch_profile L' nw' username s2 = (Inr p, s2)"
    using later_keeps [OF assms(2)] by (simp add: fetch_profile_hit)
  then show ?thesis by simp
qed

text \<open>
  The user was not found at first; after a later geocoding call the network knows the
  user, and the all-null profile is still what is returned.
\<close>

theorem profile_cached_for_good_witness:
  "fetch_profile lib_ex net_ok (JStr (ascii ''octocat''))
     (snd (geocode lib_ex net_down (ascii ''Atlantis'')
        (snd (fetch_profile lib_ex net_404 (JStr (ascii ''octocat'')) init)))) =
   (Inr null_profile,
    snd (geocode lib_ex net_down (ascii ''Atlantis'')
       (snd (fetch_profile lib_ex net_404 (JStr (ascii ''octocat'')) init))))"
proof -
  let ?s1 = "snd (fetch_profile lib_ex net_404 (JStr (ascii ''octocat'')) init)"
  have first: "fetch_profile lib_ex net_404 (JStr (ascii ''octocat'')) init = (Inr null_profile, ?s1)"
    by (simp add: fetch_profile_failed fetch_failed_def net_404_def)
  have step: "later ?s1 (snd (geocode lib_ex net_down (ascii ''Atlantis'') ?s1))"
    by (rule later.geocode [OF later.now])
  show ?thesis
    using profile_cached_for_good [OF first step, of lib_ex net_ok] by simp
qed


section \<open>Properties of the DB writer\<close>

lemma insert_params_time:
  "insert_params L ie ev p = Inr r \<Longrightarrow> event_time L ie ev = Inr (time r)"
  by (auto simp add: insert_params_def split: sum.splits)

lemma insert_params_id:
  "insert_params L ie ev p = Inr r \<Longrightarrow> py_get ev (ascii ''id'') JNull = Inr (event_id r)"
  by (auto simp add: insert_params_def split: sum.splits)

lemma event_time_string:
  "dict_get ev (ascii ''created_at'') (JStr (ascii '''')) = JStr t \<Longrightarrow>
   event_time L ie (JObj ev) = Inr (case strptime L t of Some ts \<Rightarrow> ts | None \<Rightarrow> now ie)"
  by (simp add: event_time_def py_get_obj split: option.splits)

text \<open>
  What holds of the timestamp: when \<^verbatim>\<open>created_at\<close> is a string, or is missing and so
  read as the empty string, a write that adds a row adds it with the time that
  \<^verbatim>\<open>strptime\<close> parses, or with the wall clock when \<^verbatim>\<open>strptime\<close> raises \<^verbatim>\<open>ValueError\<close>.
\<close>

lemma write_event_time_of_string:
  assumes "dict_get ev (ascii ''created_at'') (JStr (ascii '''')) = JStr t"
    and "write_event L ie (JObj ev) p s = (Inr u, s')"
  shows "s' = s \<or>
         (\<exists>r. s' = s\<lparr>db_pending := db_pending s @ [r]\<rparr> \<and>
              time r = (case strptime L t of Some ts \<Rightarrow> ts | None \<Rightarrow> now ie))"
proof -
  obtain r where r: "insert_params L ie (JObj ev) p = Inr r"
    and ex: "db_execute ie r s = (Inr u, s')"
    using assms(2) by (auto simp add: write_event_def split: sum.splits)
  have "time r = (case strptime L t of Some ts \<Rightarrow> ts | None \<Rightarrow> now ie)"
    using insert_params_time [OF r] event_time_string [OF assms(1), of L ie] by simp
  then show ?thesis
    using ex by (auto simp add: db_execute_def split: if_splits option.splits)
qed

lemma env_ok_simps [simp]:
  "now env_ok = 99" "\<not> execute_fails env_ok" "\<not> db_commit_fails env_ok"
  "\<not> rollback_fails env_ok" "\<not> offset_commit_fails env_ok" "connect_after env_ok = Some 0"
  by (simp_all add: env_ok_def)

lemma insert_params_push:
  "insert_params lib_ex env_ok push_event null_profile =
     Inr \<lparr>time = 1704164645, event_id = JStr (ascii ''42''),
          event_type = JStr (ascii ''PushEvent''), actor = JStr (ascii ''octocat''),
          repo = JStr (ascii ''octocat/hello''), detail = JStr (ascii ''3 commit(s)''),
          location = JNull, country = JNull, country_code = JNull, lat = JNull, lng = JNull,
          company = JNull, public_repos = JNull,
          payload = JObj [(ascii ''commits'', JArr [JObj [], JObj [], JObj []])]\<rparr>"
proof -
  have "strptime lib_ex (ascii ''2024-01-02T03:04:05Z'') = Some 1704164645"
    by (simp add: lib_ex_def)
  moreover have "digits 3 @ ascii '' commit(s)'' = ascii ''3 commit(s)''"
    by (simp add: digits.simps ascii_def)
  ultimately show ?thesis
    by (simp add: insert_params_def event_time_def push_event_def py_get_def dict_get_def
        extract_detail_def py_len_def py_str_def null_profile_def)
qed

lemma insert_params_push_bad_time:
  "insert_params lib_ex env_ok push_event_bad_time null_profile =
     Inr \<lparr>time = 99, event_id = JStr (ascii ''42''),
          event_type = JStr (ascii ''PushEvent''), actor = JStr (ascii ''octocat''),
          repo = JStr (ascii ''octocat/hello''), detail = JStr (ascii ''3 commit(s)''),
          location = JNull, country = JNull, country_code = JNull, lat = JNull, lng = JNull,
          company = JNull, public_repos = JNull,
          payload = JObj [(ascii ''commits'', JArr [JObj [], JObj [], JObj []])]\<rparr>"
proof -
  have "strptime lib_ex (ascii ''yesterday'') = None"
    by (simp add: lib_ex_def)
  moreover have "digits 3 @ ascii '' commit(s)'' = ascii ''3 commit(s)''"
    by (simp add: digits.simps ascii_def)
  ultimately show ?thesis
    by (simp add: insert_params_def event_time_def push_event_bad_time_def py_get_def
        dict_get_def extract_detail_def py_len_def py_str_def null_profile_def)
qed

lemma adapt_row_push:
  "adapt_row \<lparr>time = t, event_id = JStr (ascii ''42''),
          event_type = JStr (ascii ''PushEvent''), actor = JStr (ascii ''octocat''),
          repo = JStr (ascii ''octocat/hello''), detail = JStr (ascii ''3 commit(s)''),
          location = JNull, country = JNull, country_code = JNull, lat = JNull, lng = JNull,
          company = JNull, public_repos = JNull, payload = pl\<rparr> = None"
  by (simp add: adapt_row_def ascii_def)

text \<open>
  Claim C9 fails on the code. A \<^verbatim>\<open>created_at\<close> that is null makes \<^verbatim>\<open>strptime\<close> raise
  \<^verbatim>\<open>TypeError\<close>, which the handler for \<^verbatim>\<open>ValueError\<close> does not catch: the write fails
  over the timestamp and nothing is stored. The same event with a timestamp that is a
  string but does not parse is written, with the wall clock as its time.
\<close>

theorem write_event_fails_on_null_timestamp:
  "event_time lib_ex env_ok push_event_no_time = Inl TypeError \<and>
   write_event lib_ex env_ok push_event_no_time null_profile init = (Inl TypeError, init) \<and>
   event_time lib_ex env_ok push_event_bad_time = Inr 99 \<and>
   fst (write_event lib_ex env_ok push_event_bad_time null_profile init) = Inr ()"
proof -
  have no_time: "event_time lib_ex env_ok push_event_no_time = Inl TypeError"
    by (simp add: event_time_def push_event_no_time_def py_get_def dict_get_def)
  then have "insert_params lib_ex env_ok push_event_no_time null_profile = Inl TypeError"
    by (simp add: insert_params_def)
  then have no_write: "write_event lib_ex env_ok push_event_no_time null_profile init =
      (Inl TypeError, init)"
    by (simp add: write_event_def)
  have "strptime lib_ex (ascii ''yesterday'') = None"
    by (simp add: lib_ex_def)
  then have bad: "event_time lib_ex env_ok push_event_bad_time = Inr 99"
    by (simp add: event_time_def push_event_bad_time_def py_get_def dict_get_def)
  have "fst (write_event lib_ex env_ok push_event_bad_time null_profile init) = Inr ()"
    by (simp add: write_event_def insert_params_push_bad_time db_execute_def adapt_row_push)
  then show ?thesis
    using no_time no_write bad by simp
qed

lemma conflicts_rows_with:
  "event_id r \<noteq> JNull \<Longrightarrow>
   conflicts r (db_committed s @ db_pending s) = (rows_with (event_id r) s \<noteq> [])"
  unfolding conflicts_def rows_with_def filter_empty_conv
  by (metis (mono_tags, lifting) image_iff list.set_map)

lemma write_event_ok:
  assumes "py_get ev (ascii ''id'') JNull = Inr eid" and "eid \<noteq> JNull" and "write_ok L (ie, ev, p)"
  shows "write_event L ie ev p s =
           (Inr (),
            if rows_with eid s \<noteq> [] then s
            else s\<lparr>db_pending := db_pending s @ [projr (insert_params L ie ev p)]\<rparr>)"
proof -
  obtain r where r: "insert_params L ie ev p = Inr r"
    using assms(3) by (auto simp add: write_ok_def split: sum.splits)
  then have "event_id r = eid"
    using insert_params_id [OF r] assms(1) by simp
  then have c: "conflicts r (db_committed s @ db_pending s) = (rows_with eid s \<noteq> [])"
    using assms(2) conflicts_rows_with [of r s] by simp
  have "\<not> execute_fails ie" and "adapt_row r = None"
    using assms(3) r by (simp_all add: write_ok_def)
  then show ?thesis
    using r c by (simp add: write_event_def db_execute_def)
qed

lemma write_event_failed:
  assumes "\<not> write_ok L (ie, ev, p)"
  shows "snd (write_event L ie ev p s) = s"
  using assms
  by (auto simp add: write_ok_def write_event_def db_execute_def split: sum.splits option.splits)

lemma write_event_step_rows:
  assumes "py_get ev (ascii ''id'') JNull = Inr eid" and "eid \<noteq> JNull"
  shows "rows_with eid (snd (write_event L ie ev p s)) =
           (if rows_with eid s = [] \<and> write_ok L (ie, ev, p)
            then [projr (insert_params L ie ev p)] else rows_with eid s)"
proof (cases "write_ok L (ie, ev, p)")
  case False
  then show ?thesis
    by (simp add: write_event_failed)
next
  case True
  then obtain r where r: "insert_params L ie ev p = Inr r"
    by (auto simp add: write_ok_def split: sum.splits)
  then have "event_id r = eid"
    using insert_params_id [OF r] assms(1) by simp
  then show ?thesis
    using True r by (simp add: write_event_ok [OF assms True] rows_with_def)
qed

lemma write_all_rows:
  assumes "eid \<noteq> JNull" and "\<forall>w\<in>set ws. py_get (fst (snd w)) (ascii ''id'') JNull = Inr eid"
    and "length (rows_with eid s) \<le> 1"
  shows "length (rows_with eid (write_all L ws s)) =
           (if rows_with eid s \<noteq> [] \<or> (\<exists>w\<in>set ws. write_ok L w) then 1 else 0)"
  using assms(2,3)
proof (induction ws arbitrary: s)
  case Nil
  then show ?case
    by (cases "rows_with eid s") simp_all
next
  case (Cons w ws)
  obtain ie ev p where w: "w = (ie, ev, p)"
    by (cases w) auto
  have id: "py_get ev (ascii ''id'') JNull = Inr eid"
    using Cons.prems(1) w by simp
  let ?s = "snd (write_event L ie ev p s)"
  have rows: "rows_with eid ?s =
      (if rows_with eid s = [] \<and> write_ok L (ie, ev, p)
       then [projr (insert_params L ie ev p)] else rows_with eid s)"
    by (rule write_event_step_rows [OF id assms(1)])
  then have le: "length (rows_with eid ?s) \<le> 1"
    using Cons.prems(2) by simp
  have all: "\<forall>w\<in>set ws. py_get (fst (snd w)) (ascii ''id'') JNull = Inr eid"
    using Cons.prems(1) by simp
  have IH: "length (rows_with eid (write_all L ws ?s)) =
      (if rows_with eid ?s \<noteq> [] \<or> (\<exists>w\<in>set ws. write_ok L w) then 1 else 0)"
    by (rule Cons.IH [OF all le])
  have step: "write_all L (w # ws) s = write_all L ws ?s"
    using w by simp
  show ?case
  proof (cases "rows_with eid s = [] \<and> write_ok L (ie, ev, p)")
    case True
    then show ?thesis
      unfolding step IH using rows w by simp
  next
    case False
    then have "rows_with eid ?s = rows_with eid s"
      using rows by simp
    then show ?thesis
      unfolding step IH using False w by auto
  qed
qed

lemma write_all_unchanged:
  assumes "eid \<noteq> JNull" and "\<forall>w\<in>set ws. py_get (fst (snd w)) (ascii ''id'') JNull = Inr eid"
    and "rows_with eid s \<noteq> []"
  shows "write_all L ws s = s"
  using assms(2)
proof (induction ws)
  case Nil
  then show ?case by simp
next
  case (Cons w ws)
  obtain ie ev p where w: "w = (ie, ev, p)"
    by (cases w) auto
  have id: "py_get ev (ascii ''id'') JNull = Inr eid"
    using Cons.prems w by simp
  have "snd (write_event L ie ev p s) = s"
    using assms(3) write_event_ok [OF id assms(1), of L ie p s] write_event_failed [of L ie ev p s]
    by (cases "write_ok L (ie, ev, p)") simp_all
  then show ?case
    using Cons w by simp
qed

text \<open>
  Claim C2. Let the write step run any number of times for events with one and the same
  event id (not null), in a table with at most one row of that id, as the unique key
  grants. Then the table holds exactly one row with that id if it held one before or at
  least one of the writes ended without an exception, and none otherwise. If a row with
  the id was there before, the state after all the writes is the state before them, and
  each write that ends without an exception returns normally with the state untouched:
  the duplicate is dropped, the stored row is not overwritten.
\<close>

theorem write_event_idempotent:
  assumes "eid \<noteq> JNull" and "\<forall>w\<in>set ws. py_get (fst (snd w)) (ascii ''id'') JNull = Inr eid"
    and "length (rows_with eid s) \<le> 1"
  shows "length (rows_with eid (write_all L ws s)) =
           (if rows_with eid s \<noteq> [] \<or> (\<exists>w\<in>set ws. write_ok L w) then 1 else 0) \<and>
         (rows_with eid s \<noteq> [] \<longrightarrow>
            write_all L ws s = s \<and>
            (\<forall>w\<in>set ws. write_ok L w \<longrightarrow>
               write_event L (fst w) (fst (snd w)) (snd (snd w)) s = (Inr (), s)))"
proof -
  have "write_event L (fst w) (fst (snd w)) (snd (snd w)) s = (Inr (), s)"
    if "rows_with eid s \<noteq> []" and "w \<in> set ws" and "write_ok L w" for w
  proof -
    have "py_get (fst (snd w)) (ascii ''id'') JNull = Inr eid"
      using assms(2) that(2) by simp
    from write_event_ok [OF this assms(1), of L "fst w" "snd (snd w)" s]
    show ?thesis
      using that(1,3) by simp
  qed
  then show ?thesis
    using write_all_rows [OF assms] write_all_unchanged [OF assms(1,2)] by blast
qed

lemma write_ok_push: "write_ok lib_ex (env_ok, push_event, null_profile)"
  by (simp add: write_ok_def insert_params_push adapt_row_push)

lemma push_event_id:
  "py_get push_event (ascii ''id'') JNull = Inr (JStr (ascii ''42''))"
  "py_get push_event_bad_time (ascii ''id'') JNull = Inr (JStr (ascii ''42''))"
  by (simp_all add: push_event_def push_event_bad_time_def py_get_def dict_get_def)

text \<open>
  The push event delivered twice into the empty table, the second time with another
  timestamp: one row.
\<close>

theorem write_event_idempotent_witness:
  "length (rows_with (JStr (ascii ''42''))
     (write_all lib_ex
        [(env_ok, push_event, null_profile), (env_ok, push_event_bad_time, null_profile)] init)) = 1"
  using write_event_idempotent [of "JStr (ascii ''42'')"
      "[(env_ok, push_event, null_profile), (env_ok, push_event_bad_time, null_profile)]"
      init lib_ex]
  by (simp add: push_event_id write_ok_push rows_with_def)


section \<open>Properties of the main loop\<close>

lemma db_first_any: "db_first None as \<Longrightarrow> db_first p as"
  by (cases as) (auto split: action.splits)

lemma db_first_append:
  "db_first p xs \<Longrightarrow> db_first None ys \<Longrightarrow> db_first p (xs @ ys)"
  by (induction xs arbitrary: p) (auto simp add: db_first_any)

lemma process_msg_trace:
  assumes "process_msg L nw ie i b s = (r, s')"
  shows "position s' = position s \<and>
         ((r = Inr () \<and> trace s' = trace s @ [DbCommitted i, OffsetCommitted i] \<and>
           committed_offset s' = position s \<and> db_pending s' = []) \<or>
          ((\<exists>e. r = Inl e) \<and> committed_offset s' = committed_offset s \<and>
           (trace s' = trace s \<or> trace s' = trace s @ [DbCommitted i])))"
  using assms
  by (auto simp add: process_msg_def Let_def
      dest!: write_event_frame fetch_profile_frame
      split: body.splits sum.splits prod.splits if_splits)

text \<open>What one pass adds to the trace.\<close>

lemma handle_msg_trace:
  assumes "handle_msg L nw ie i b s = (f, s')"
  shows "position s' = position s \<and>
         (\<exists>acts. trace s' = trace s @ acts \<and> (\<forall>a\<in>set acts. offset_of a = i) \<and>
            db_first None acts \<and>
            (SkippedMalformed i \<in> set acts \<or> DbFailed i \<in> set acts
               \<longrightarrow> OffsetCommitted i \<notin> set acts))"
proof -
  obtain r s1 where p: "process_msg L nw ie i b s = (r, s1)"
    by fastforce
  note t = process_msg_trace [OF p]
  show ?thesis
  proof (cases r)
    case (Inr u)
    then have "trace s1 = trace s @ [DbCommitted i, OffsetCommitted i]" and "s' = s1"
      using t assms p by (auto simp add: handle_msg_def)
    then show ?thesis
      using t by simp
  next
    case (Inl e)
    then consider "trace s1 = trace s" | "trace s1 = trace s @ [DbCommitted i]"
      using t by auto
    then show ?thesis
    proof cases
      case 1
      then show ?thesis
        using t assms p Inl
        by (auto simp add: handle_msg_def Let_def split: if_splits option.splits)
    next
      case 2
      then show ?thesis
        using t assms p Inl
        by (auto simp add: handle_msg_def Let_def split: if_splits option.splits)
    qed
  qed
qed

lemma write_event_stored:
  assumes "write_event L ie ev p s = (Inr u, s')"
  shows "db_committed s' = db_committed s \<and>
         (\<exists>r\<in>set (db_committed s' @ db_pending s'). py_get ev (ascii ''id'') JNull = Inr (event_id r))"
proof -
  obtain r where r: "insert_params L ie ev p = Inr r" and ex: "db_execute ie r s = (Inr u, s')"
    using assms by (auto simp add: write_event_def split: sum.splits)
  have id: "py_get ev (ascii ''id'') JNull = Inr (event_id r)"
    by (rule insert_params_id [OF r])
  show ?thesis
  proof (cases "conflicts r (db_committed s @ db_pending s)")
    case True
    then have "s' = s"
      using ex by (auto simp add: db_execute_def split: if_splits option.splits)
    moreover obtain r' where "r' \<in> set (db_committed s @ db_pending s)" "event_id r' = event_id r"
      using True unfolding conflicts_def by (metis (no_types, lifting) image_iff list.set_map)
    ultimately show ?thesis
      using id by (metis)
  next
    case False
    then have "s' = s\<lparr>db_pending := db_pending s @ [r]\<rparr>"
      using ex by (auto simp add: db_execute_def split: if_splits option.splits)
    then show ?thesis
      using id by auto
  qed
qed

lemma process_msg_stored:
  assumes "process_msg L nw ie i b s = (Inr u, s')"
  shows "\<exists>ev. b = Parsed ev \<and>
           (\<exists>r\<in>set (db_committed s'). py_get ev (ascii ''id'') JNull = Inr (event_id r))"
  using assms
  by (auto simp add: process_msg_def Let_def dest!: write_event_stored
      split: body.splits sum.splits prod.splits if_splits)

lemma handle_msg_offset:
  assumes "handle_msg L nw ie i b s = (f, s')"
  shows "(trace s' = trace s @ [DbCommitted i, OffsetCommitted i] \<and> f = Next \<and>
          committed_offset s' = position s \<and> db_pending s' = [] \<and>
          (\<exists>ev. b = Parsed ev \<and>
             (\<exists>r\<in>set (db_committed s'). py_get ev (ascii ''id'') JNull = Inr (event_id r)))) \<or>
         (committed_offset s' = committed_offset s \<and>
          OffsetCommitted i \<notin> set (drop (length (trace s)) (trace s')))"
proof -
  obtain r s1 where p: "process_msg L nw ie i b s = (r, s1)"
    by fastforce
  note t = process_msg_trace [OF p]
  show ?thesis
  proof (cases r)
    case (Inr u)
    then have "s' = s1" and "f = Next"
      using assms p by (auto simp add: handle_msg_def)
    then show ?thesis
      using t Inr process_msg_stored [of L nw ie i b s u s1] p by auto
  next
    case (Inl e)
    then consider "trace s1 = trace s" | "trace s1 = trace s @ [DbCommitted i]"
      using t by auto
    then show ?thesis
    proof cases
      case 1
      then show ?thesis
        using t assms p Inl
        by (auto simp add: handle_msg_def Let_def split: if_splits option.splits)
    next
      case 2
      then show ?thesis
        using t assms p Inl
        by (auto simp add: handle_msg_def Let_def split: if_splits option.splits)
    qed
  qed
qed

lemma trace_ok_nil: "trace_ok lo hi []"
  by (simp add: trace_ok_def)

lemma trace_ok_append:
  assumes "trace_ok lo mid xs" and "trace_ok mid hi ys" and "lo \<le> mid" and "mid \<le> hi"
  shows "trace_ok lo hi (xs @ ys)"
proof -
  have order: "db_first None (xs @ ys)"
    using assms by (simp add: trace_ok_def db_first_append)
  have xs: "lo \<le> offset_of a \<and> offset_of a < mid" if "a \<in> set xs" for a
    using assms(1) that by (simp add: trace_ok_def)
  have ys: "mid \<le> offset_of a \<and> offset_of a < hi" if "a \<in> set ys" for a
    using assms(2) that by (simp add: trace_ok_def)
  have range: "\<forall>a\<in>set (xs @ ys). lo \<le> offset_of a \<and> offset_of a < hi"
    using xs ys assms(3,4) by fastforce
  have only: "OffsetCommitted i \<notin> set (xs @ ys)"
    if bad: "SkippedMalformed i \<in> set (xs @ ys) \<or> DbFailed i \<in> set (xs @ ys)" for i
  proof (cases "i < mid")
    case True
    then have "SkippedMalformed i \<notin> set ys" "DbFailed i \<notin> set ys" "OffsetCommitted i \<notin> set ys"
      using ys [of "SkippedMalformed i"] ys [of "DbFailed i"] ys [of "OffsetCommitted i"]
      by auto
    moreover from this have "OffsetCommitted i \<notin> set xs"
      using bad assms(1) by (auto simp add: trace_ok_def)
    ultimately show ?thesis by simp
  next
    case False
    then have "SkippedMalformed i \<notin> set xs" "DbFailed i \<notin> set xs" "OffsetCommitted i \<notin> set xs"
      using xs [of "SkippedMalformed i"] xs [of "DbFailed i"] xs [of "OffsetCommitted i"]
      by auto
    moreover from this have "OffsetCommitted i \<notin> set ys"
      using bad assms(2) by (auto simp add: trace_ok_def)
    ultimately show ?thesis by simp
  qed
  show ?thesis
    unfolding trace_ok_def using order range only by blast
qed

lemma handle_msg_trace_ok:
  assumes "handle_msg L nw ie i b s = (f, s')"
  shows "position s' = position s \<and> (\<exists>acts. trace s' = trace s @ acts \<and> trace_ok i (Suc i) acts)"
proof -
  obtain acts where a: "trace s' = trace s @ acts" "\<forall>a\<in>set acts. offset_of a = i"
    "db_first None acts"
    "SkippedMalformed i \<in> set acts \<or> DbFailed i \<in> set acts \<longrightarrow> OffsetCommitted i \<notin> set acts"
    using handle_msg_trace [OF assms] by blast
  have "OffsetCommitted j \<notin> set acts"
    if "SkippedMalformed j \<in> set acts \<or> DbFailed j \<in> set acts" for j
  proof -
    have "j = i"
      using that a(2) by force
    then show ?thesis
      using that a(4) by simp
  qed
  then have "trace_ok i (Suc i) acts"
    unfolding trace_ok_def using a(2,3) by auto
  then show ?thesis
    using a(1) handle_msg_trace [OF assms] by blast
qed

lemma main_loop_trace:
  "\<exists>new. trace (snd (main_loop L nw ps s)) = trace s @ new \<and>
         position s \<le> position (snd (main_loop L nw ps s)) \<and>
         trace_ok (position s) (position (snd (main_loop L nw ps s))) new"
proof (induction L nw ps s rule: main_loop.induct)
  case (1 L nw s)
  then show ?case by (simp add: trace_ok_nil)
next
  case (2 L nw ps s)
  then show ?case by simp
next
  case (3 L nw eof ps s)
  then show ?case by (cases eof) simp_all
next
  case (4 L nw b ie ps s)
  let ?s0 = "s\<lparr>position := position s + 1\<rparr>"
  obtain f s1 where h: "handle_msg L nw ie (position s) b ?s0 = (f, s1)"
    by fastforce
  obtain acts where a: "trace s1 = trace s @ acts" "position s1 = Suc (position s)"
    "trace_ok (position s) (Suc (position s)) acts"
    using handle_msg_trace_ok [OF h] by auto
  show ?case
  proof (cases f)
    case Next
    then have run: "main_loop L nw (PollMsg b ie # ps) s = main_loop L nw ps s1"
      using h by simp
    obtain new where n: "trace (snd (main_loop L nw ps s1)) = trace s1 @ new"
      "position s1 \<le> position (snd (main_loop L nw ps s1))"
      "trace_ok (position s1) (position (snd (main_loop L nw ps s1))) new"
      using "4.IH" [OF h [symmetric] Next] by blast
    have "trace_ok (position s) (position (snd (main_loop L nw ps s1))) (acts @ new)"
      using trace_ok_append [OF a(3) _ _ _] n a(2) by simp
    then show ?thesis
      unfolding run using n a by auto
  next
    case (Raised e)
    then show ?thesis
      using h a by auto
  next
    case Blocked
    then show ?thesis
      using h a by auto
  qed
next
  case (5 L nw ps s)
  then show ?case by (simp add: trace_ok_nil)
qed

text \<open>
  What holds of the order of the calls. Whatever the queue delivers and the environment
  does, in what a run of the main loop adds to the trace every call of
  \<^verbatim>\<open>consumer.commit\<close> stands straight after the \<^verbatim>\<open>conn.commit\<close> of the same pass, and no
  pass that skipped its message as malformed or ended in the database handler calls
  \<^verbatim>\<open>consumer.commit\<close>. One pass for the message at offset \<open>i\<close> either commits the
  transaction and then the position, leaving nothing pending and a row with the event's
  id in the committed table, or leaves the committed offset as it was.
\<close>

lemma commit_call_order:
  "(\<exists>new. trace (snd (main_loop L nw ps s)) = trace s @ new \<and> db_first None new \<and>
      (\<forall>i. SkippedMalformed i \<in> set new \<or> DbFailed i \<in> set new
           \<longrightarrow> OffsetCommitted i \<notin> set new)) \<and>
   (\<forall>f s'. handle_msg L nw ie i b s = (f, s') \<longrightarrow>
      (trace s' = trace s @ [DbCommitted i, OffsetCommitted i] \<and> f = Next \<and>
       committed_offset s' = position s \<and> db_pending s' = [] \<and>
       (\<exists>ev. b = Parsed ev \<and>
          (\<exists>r\<in>set (db_committed s'). py_get ev (ascii ''id'') JNull = Inr (event_id r)))) \<or>
      (committed_offset s' = committed_offset s \<and>
       OffsetCommitted i \<notin> set (drop (length (trace s)) (trace s'))))"
proof -
  obtain new where "trace (snd (main_loop L nw ps s)) = trace s @ new"
    "trace_ok (position s) (position (snd (main_loop L nw ps s))) new"
    using main_loop_trace by blast
  then have "\<exists>new. trace (snd (main_loop L nw ps s)) = trace s @ new \<and> db_first None new \<and>
      (\<forall>i. SkippedMalformed i \<in> set new \<or> DbFailed i \<in> set new
           \<longrightarrow> OffsetCommitted i \<notin> set new)"
    unfolding trace_ok_def by blast
  then show ?thesis
    using handle_msg_offset by blast
qed

lemma fetch_profile_octocat_404:
  "user_cache s (JStr (ascii ''octocat'')) = None \<Longrightarrow>
   fetch_profile lib_ex net_404 (JStr (ascii ''octocat'')) s =
     (Inr null_profile,
      s\<lparr>net_calls := net_calls s @ [GithubUser (ascii ''octocat'')],
        user_cache := (user_cache s)(JStr (ascii ''octocat'') \<mapsto> null_profile)\<rparr>)"
  by (simp add: fetch_profile_failed fetch_failed_def net_404_def)

lemma push_event_login:
  "py_get push_event (ascii ''actor'') (JObj []) = Inr (JObj [(ascii ''login'', JStr (ascii ''octocat''))])"
  by (simp add: push_event_def py_get_def dict_get_def)

lemma run_after_bad_json:
  "main_loop lib_ex net_404 [PollMsg NotJson env_ok, PollMsg (Parsed push_event) env_ok] init =
     (Running,
      init\<lparr>user_cache := [JStr (ascii ''octocat'') \<mapsto> null_profile],
           net_calls := [GithubUser (ascii ''octocat'')],
           db_committed :=
             [\<lparr>time = 1704164645, event_id = JStr (ascii ''42''), event_type = JStr (ascii ''PushEvent''),
               actor = JStr (ascii ''octocat''), repo = JStr (ascii ''octocat/hello''),
               detail = JStr (ascii ''3 commit(s)''),
               location = JNull, country = JNull, country_code = JNull, lat = JNull, lng = JNull,
               company = JNull, public_repos = JNull,
               payload = JObj [(ascii ''commits'', JArr [JObj [], JObj [], JObj []])]\<rparr>],
           position := 2, committed_offset := 2, processed := 1, errors := 1,
           trace := [SkippedMalformed 0, RolledBack 0, DbCommitted 1, OffsetCommitted 1]\<rparr>)"
  by (simp add: handle_msg_def process_msg_def push_event_login py_get_obj dict_get_def
      fetch_profile_octocat_404 write_event_def insert_params_push db_execute_def conflicts_def
      adapt_row_push init_def)

text \<open>
  Claim C3 fails on the code. A message whose bytes are not UTF-8, or whose JSON is not
  an object, raises an exception that neither handler of the inner \<^verbatim>\<open>try\<close> names
  (\<^verbatim>\<open>UnicodeDecodeError\<close>, \<^verbatim>\<open>AttributeError\<close>); it leaves the loop, and the well-formed
  message behind it is never handled: no row, no error counted.
\<close>

theorem main_loop_stops_on_undecodable_message:
  "main_loop lib_ex net_404 [PollMsg NotUtf8 env_ok, PollMsg (Parsed push_event) env_ok] init =
     (Crashed UnicodeDecodeError, init\<lparr>position := 1\<rparr>) \<and>
   main_loop lib_ex net_404 [PollMsg (Parsed (JArr [])) env_ok, PollMsg (Parsed push_event) env_ok]
     init =
     (Crashed AttributeError, init\<lparr>position := 1\<rparr>)"
  by (simp add: handle_msg_def process_msg_def py_get_def)

lemma insert_params_issue:
  "insert_params lib_ex env_ok issue_event null_profile =
     Inr \<lparr>time = 1704164645, event_id = JStr (ascii ''43''),
          event_type = JStr (ascii ''IssuesEvent''), actor = JStr (ascii ''octocat''),
          repo = JStr (ascii ''octocat/hello''), detail = JStr (ascii ''opened''),
          location = JNull, country = JNull, country_code = JNull, lat = JNull, lng = JNull,
          company = JNull, public_repos = JNull,
          payload = JObj [(ascii ''action'', JStr (ascii ''opened''))]\<rparr>"
proof -
  have "strptime lib_ex (ascii ''2024-01-02T03:04:05Z'') = Some 1704164645"
    by (simp add: lib_ex_def)
  then show ?thesis
    by (simp add: insert_params_def event_time_def issue_event_def py_get_def dict_get_def
        extract_detail_def py_str_def null_profile_def)
qed

lemma adapt_row_issue:
  "adapt_row \<lparr>time = t, event_id = JStr (ascii ''43''),
          event_type = JStr (ascii ''IssuesEvent''), actor = JStr (ascii ''octocat''),
          repo = JStr (ascii ''octocat/hello''), detail = JStr (ascii ''opened''),
          location = JNull, country = JNull, country_code = JNull, lat = JNull, lng = JNull,
          company = JNull, public_repos = JNull, payload = pl\<rparr> = None"
  by (simp add: adapt_row_def ascii_def)

lemma env_db_down_simps [simp]:
  "now env_db_down = 99" "execute_fails env_db_down" "\<not> db_commit_fails env_db_down"
  "\<not> rollback_fails env_db_down" "\<not> offset_commit_fails env_db_down"
  "connect_after env_db_down = Some 2"
  by (simp_all add: env_db_down_def)

lemma insert_params_push_down:
  "insert_params lib_ex env_db_down push_event null_profile =
   insert_params lib_ex env_ok push_event null_profile"
proof -
  have "strptime lib_ex (ascii ''2024-01-02T03:04:05Z'') = Some 1704164645"
    by (simp add: lib_ex_def)
  then show ?thesis
    by (simp add: insert_params_def event_time_def push_event_def py_get_def dict_get_def)
qed

lemma issue_event_login:
  "py_get issue_event (ascii ''actor'') (JObj []) =
     Inr (JObj [(ascii ''login'', JStr (ascii ''octocat''))])"
  by (simp add: issue_event_def py_get_def dict_get_def)

lemma fetch_profile_octocat_cached:
  "user_cache s (JStr (ascii ''octocat'')) = Some p \<Longrightarrow>
   fetch_profile lib_ex nw (JStr (ascii ''octocat'')) s = (Inr p, s)"
  by (simp add: fetch_profile_def py_key_def py_hashable_def)

text \<open>
  Claim C1 fails on the code. \<^verbatim>\<open>consumer.commit(asynchronous=False)\<close> is called without
  a message: it commits the position of the consumer, which \<^verbatim>\<open>poll\<close> has moved past
  every message delivered, the failed ones too. The push event at offset 0 meets a
  database that fails its statement: the handler rolls back, reconnects and commits no
  offset, and the committed offset is still 0. The issues event at offset 1 is then
  written and committed, and the offset committed after it is 2: the offset of the first
  message is committed although no row of its id 42 was ever committed; a restart resumes
  behind it.
\<close>

theorem offset_committed_past_failed_message:
  "main_loop lib_ex net_404 [PollMsg (Parsed push_event) env_db_down] init =
     (Running,
      init\<lparr>user_cache := [JStr (ascii ''octocat'') \<mapsto> null_profile],
           net_calls := [GithubUser (ascii ''octocat'')],
           position := 1, errors := 1,
           trace := [DbFailed 0, RolledBack 0, Reconnected 0]\<rparr>) \<and>
   main_loop lib_ex net_404
     [PollMsg (Parsed push_event) env_db_down, PollMsg (Parsed issue_event) env_ok] init =
     (Running,
      init\<lparr>user_cache := [JStr (ascii ''octocat'') \<mapsto> null_profile],
           net_calls := [GithubUser (ascii ''octocat'')],
           db_committed :=
             [\<lparr>time = 1704164645, event_id = JStr (ascii ''43''),
               event_type = JStr (ascii ''IssuesEvent''), actor = JStr (ascii ''octocat''),
               repo = JStr (ascii ''octocat/hello''), detail = JStr (ascii ''opened''),
               location = JNull, country = JNull, country_code = JNull, lat = JNull,
               lng = JNull, company = JNull, public_repos = JNull,
               payload = JObj [(ascii ''action'', JStr (ascii ''opened''))]\<rparr>],
           position := 2, committed_offset := 2, processed := 1, errors := 1,
           trace := [DbFailed 0, RolledBack 0, Reconnected 0,
                     DbCommitted 1, OffsetCommitted 1]\<rparr>)"
  by (simp add: handle_msg_def process_msg_def push_event_login issue_event_login py_get_obj
      dict_get_def fetch_profile_octocat_404 fetch_profile_octocat_cached write_event_def
      insert_params_push_down insert_params_push insert_params_issue
      db_execute_def conflicts_def adapt_row_push adapt_row_issue init_def)

end
